theory Spec2Isabelle
  imports Complex_Main
begin

section \<open>Two-dimensional vectors\<close>

text \<open>
  The particle code of \<^verbatim>\<open>src/nodes/masks/mask_base.py\<close> computes with the physics
  library's \<^verbatim>\<open>Vec2d\<close>. A vector is a pair of coordinates; Python floats are read as real
  numbers throughout. The operations below are the ones the source calls:
  \<^verbatim>\<open>a + b\<close>, \<^verbatim>\<open>a - b\<close>, \<^verbatim>\<open>-a\<close>, \<^verbatim>\<open>a * s\<close>, \<^verbatim>\<open>a.dot(b)\<close>, \<^verbatim>\<open>a.length\<close>,
  \<^verbatim>\<open>a.normalized()\<close> and \<^verbatim>\<open>a.perpendicular_normal()\<close>. The last two return the vector
  itself (the zero vector) when its length is zero, instead of dividing by it.
\<close>

type_synonym Vec2d = "real \<times> real"

definition vec_add :: "Vec2d \<Rightarrow> Vec2d \<Rightarrow> Vec2d" where
  "vec_add a b = (fst a + fst b, snd a + snd b)"

definition vec_sub :: "Vec2d \<Rightarrow> Vec2d \<Rightarrow> Vec2d" where
  "vec_sub a b = (fst a - fst b, snd a - snd b)"

definition vec_neg :: "Vec2d \<Rightarrow> Vec2d" where
  "vec_neg a = (- fst a, - snd a)"

definition vec_scale :: "Vec2d \<Rightarrow> real \<Rightarrow> Vec2d" where
  "vec_scale a s = (fst a * s, snd a * s)"

definition vec_dot :: "Vec2d \<Rightarrow> Vec2d \<Rightarrow> real" where
  "vec_dot a b = fst a * fst b + snd a * snd b"

definition vec_length :: "Vec2d \<Rightarrow> real" where
  "vec_length a = sqrt (fst a * fst a + snd a * snd a)"

definition normalized :: "Vec2d \<Rightarrow> Vec2d" where
  "normalized a =
     (let l = vec_length a
      in if l \<noteq> 0 then (fst a / l, snd a / l) else a)"

definition perpendicular_normal :: "Vec2d \<Rightarrow> Vec2d" where
  "perpendicular_normal a =
     (let l = vec_length a
      in if l \<noteq> 0 then (- snd a / l, fst a / l) else a)"

section \<open>Segment intersection\<close>

text \<open>
  \<^verbatim>\<open>line_segment_intersect(p1, p2, p3, p4)\<close> with its local helper \<^verbatim>\<open>ccw(A, B, C)\<close>.
\<close>

definition ccw :: "Vec2d \<Rightarrow> Vec2d \<Rightarrow> Vec2d \<Rightarrow> bool" where
  "ccw A B C \<longleftrightarrow> (snd C - snd A) * (fst B - fst A) > (snd B - snd A) * (fst C - fst A)"

definition line_segment_intersect :: "Vec2d \<Rightarrow> Vec2d \<Rightarrow> Vec2d \<Rightarrow> Vec2d \<Rightarrow> bool" where
  "line_segment_intersect p1 p2 p3 p4 \<longleftrightarrow>
     ccw p1 p3 p4 \<noteq> ccw p2 p3 p4 \<and> ccw p1 p2 p3 \<noteq> ccw p1 p2 p4"

text \<open>
  The signed area \<open>cross A B C\<close> of the triangle \<open>A B C\<close> (twice): positive when \<open>C\<close> is
  strictly to the left of the line from \<open>A\<close> to \<open>B\<close>, zero when the three points are
  collinear. It is the quantity \<^verbatim>\<open>ccw\<close> compares with zero.
\<close>

definition cross :: "Vec2d \<Rightarrow> Vec2d \<Rightarrow> Vec2d \<Rightarrow> real" where
  "cross A B C = (fst B - fst A) * (snd C - snd A) - (snd B - snd A) * (fst C - fst A)"

definition collinear3 :: "Vec2d \<Rightarrow> Vec2d \<Rightarrow> Vec2d \<Rightarrow> bool" where
  "collinear3 A B C \<longleftrightarrow> cross A B C = 0"

text \<open>\<open>on_segment P A B\<close>: the point \<open>P\<close> lies on the closed segment from \<open>A\<close> to \<open>B\<close>.\<close>

definition on_segment :: "Vec2d \<Rightarrow> Vec2d \<Rightarrow> Vec2d \<Rightarrow> bool" where
  "on_segment P A B \<longleftrightarrow>
     collinear3 A B P \<and>
     min (fst A) (fst B) \<le> fst P \<and> fst P \<le> max (fst A) (fst B) \<and>
     min (snd A) (snd B) \<le> snd P \<and> snd P \<le> max (snd A) (snd B)"

section \<open>Data model\<close>

text \<open>
  A particle is the physics body the source creates in \<^verbatim>\<open>emit_particle\<close>, with the
  attributes it attaches: \<^verbatim>\<open>creation_time\<close>, \<^verbatim>\<open>lifetime\<close>, \<^verbatim>\<open>size\<close> and \<^verbatim>\<open>color\<close>.
  \<open>force\<close> is the body's accumulated force, which \<^verbatim>\<open>apply_force_at_world_point\<close> adds to.
\<close>

type_synonym RGB = "real \<times> real \<times> real"

record Particle =
  position :: Vec2d
  velocity :: Vec2d
  force :: Vec2d
  creation_time :: real
  lifetime :: real
  size_p :: real
  color_p :: RGB

text \<open>An emitter descriptor (a dictionary in the source). Its colour is the RGB tuple, which
  \<^verbatim>\<open>string_to_rgb\<close> returns unchanged; colours encoded as strings are not modelled.\<close>

record Emitter =
  emitter_x :: real
  emitter_y :: real
  particle_direction :: real
  particle_spread :: real
  particle_speed :: real
  particle_size :: real
  color :: RGB
  emission_rate :: real
  initial_plume :: real

text \<open>The vortex and gravity-well objects built by \<^verbatim>\<open>initialize_vortices\<close> and
  \<^verbatim>\<open>initialize_gravity_wells\<close>, and the descriptors they are built from.\<close>

record Vortex =
  vortex_position :: Vec2d
  vortex_velocity :: Vec2d
  vortex_strength :: real
  vortex_radius :: real
  inward_factor :: real

record Well =
  well_position :: Vec2d
  well_strength :: real
  well_radius :: real
  well_type :: string

record VortexSpec =
  vs_x :: real
  vs_y :: real
  vs_strength :: real
  vs_radius :: real
  vs_inward_factor :: real
  movement_speed :: real

record WellSpec =
  ws_x :: real
  ws_y :: real
  ws_strength :: real
  ws_radius :: real
  ws_type :: string

text \<open>A boundary segment (\<^verbatim>\<open>segment.a\<close>, \<^verbatim>\<open>segment.b\<close>).\<close>

record Segment =
  seg_a :: Vec2d
  seg_b :: Vec2d

text \<open>A mask frame is a two-dimensional array, an image has three channels per pixel.\<close>

type_synonym Mask = "real list list"
type_synonym Image = "real list list list"

text \<open>
  The state of a \<^verbatim>\<open>ParticleSystemMaskBase\<close> object: the fields set by \<^verbatim>\<open>initialize\<close> and
  \<^verbatim>\<open>setup_particle_system\<close>, the two properties of the physics space the code reads and
  writes (\<^verbatim>\<open>space.gravity\<close>, \<^verbatim>\<open>space.current_time_step\<close>), and the number of random
  numbers drawn so far. \<^verbatim>\<open>space.current_time_step\<close> is, in the physics library, the time step
  of the current or most recent call of \<^verbatim>\<open>space.step\<close>, and 0 before the first call: it is
  not the time elapsed.
\<close>

record World =
  space_gravity :: Vec2d
  current_time_step :: real
  particles :: "Particle list"
  mask_shapes :: "Segment list"
  particles_to_emit :: "real list"
  total_particles_emitted :: int
  max_particles :: int
  emitters :: "Emitter list"
  gravity_wells :: "Well list"
  vortices :: "Vortex list"
  well_strength_multiplier :: real
  particle_lifetime :: real
  random_draws :: nat

text \<open>
  What the code calls but does not define: the random number generator (\<open>rnd k\<close> is the
  \<open>k\<close>-th value of \<^verbatim>\<open>random.random()\<close>), the physics engine's \<^verbatim>\<open>space.step\<close> (it sees the
  time step, the gravity, the boundary segments and the bodies, and returns the bodies),
  the contour extraction and simplification of the image library, and the
  abstract method \<^verbatim>\<open>process_single_mask\<close> of the subclass, which rasterizes the world.
  They are parameters: every theorem below holds for all of them.
\<close>

record Env =
  rnd :: "nat \<Rightarrow> real"
  engine :: "real \<Rightarrow> Vec2d \<Rightarrow> Segment list \<Rightarrow> Particle list \<Rightarrow> Particle list"
  contours :: "Mask \<Rightarrow> Vec2d list list"
  process_single_mask :: "World \<Rightarrow> Mask \<Rightarrow> nat \<Rightarrow> Mask \<times> Image"

text \<open>The keyword arguments of \<^verbatim>\<open>process_mask\<close>; an optional key is an option.\<close>

record Config =
  wind_strength :: real
  gravity :: real
  particle_count :: int
  cfg_particle_lifetime :: real
  cfg_emitters :: "Emitter list"
  cfg_vortices :: "VortexSpec list option"
  cfg_wells :: "WellSpec list option"
  cfg_well_strength_multiplier :: "real option"
  start_frame :: "int option"
  end_frame :: "int option"
  respect_mask_boundary :: "bool option"

datatype error = ValueError | ZeroDivisionError | KeyError | IndexError | AttributeError

section \<open>Force fields\<close>

text \<open>\<^verbatim>\<open>apply_force_at_world_point(force, particle.position)\<close>: the point is the body's own
  position, so the force adds to the body's force and contributes no torque.\<close>

definition apply_force_at_world_point :: "Vec2d \<Rightarrow> Particle \<Rightarrow> Particle" where
  "apply_force_at_world_point f particle = particle\<lparr>force := vec_add (force particle) f\<rparr>"

text \<open>The local variable \<^verbatim>\<open>force\<close> of \<^verbatim>\<open>apply_gravity_well_force\<close> for one well, and the zero
  vector when the \<^verbatim>\<open>if distance < well['radius']\<close> is not taken.\<close>

definition well_force :: "real \<Rightarrow> Well \<Rightarrow> Vec2d \<Rightarrow> Vec2d" where
  "well_force multiplier well pos =
     (let offset = vec_sub (well_position well) pos;
          distance = vec_length offset
      in if distance < well_radius well then
           let force_magnitude =
                 well_strength well * (1 - distance / well_radius well) * multiplier;
               force_direction = normalized offset;
               force_direction' =
                 (if well_type well = ''repel'' then vec_neg force_direction
                  else force_direction)
           in vec_scale force_direction' force_magnitude
         else (0, 0))"

text \<open>One iteration of the loop of \<^verbatim>\<open>apply_gravity_well_force\<close>, and the loop.\<close>

definition well_step :: "real \<Rightarrow> Well \<Rightarrow> Particle \<Rightarrow> Particle" where
  "well_step multiplier well particle =
     (let offset = vec_sub (well_position well) (position particle);
          distance = vec_length offset
      in if distance < well_radius well then
           apply_force_at_world_point (well_force multiplier well (position particle)) particle
         else particle)"

definition apply_gravity_well_force :: "real \<Rightarrow> Well list \<Rightarrow> Particle \<Rightarrow> Particle" where
  "apply_gravity_well_force multiplier wells particle =
     fold (well_step multiplier) wells particle"

text \<open>One iteration of the loop of \<^verbatim>\<open>apply_vortex_force\<close>, and the loop.\<close>

definition vortex_step :: "Vortex \<Rightarrow> Particle \<Rightarrow> Particle" where
  "vortex_step vortex particle =
     (let offset = vec_sub (position particle) (vortex_position vortex);
          distance = vec_length offset
      in if distance < vortex_radius vortex then
           let tangent = normalized (- snd offset, fst offset);
               radial = vec_neg (normalized offset);
               strength = vortex_strength vortex;
               tangential_velocity =
                 vec_scale (vec_scale tangent strength) (distance / vortex_radius vortex);
               radial_velocity = vec_scale (vec_scale radial strength) (inward_factor vortex);
               new_velocity = vec_add tangential_velocity radial_velocity
           in particle\<lparr>velocity := new_velocity\<rparr>
         else particle)"

definition apply_vortex_force :: "Vortex list \<Rightarrow> Particle \<Rightarrow> Particle" where
  "apply_vortex_force vs particle = fold vortex_step vs particle"

text \<open>
  \<^verbatim>\<open>update_vortices(width, height, dt)\<close>: the body of the loop for one vortex, the loop, and
  the method. The position is rebound to the advanced position. When that lies outside the
  frame, \<^verbatim>\<open>vortex['velocity'].x *= -1\<close> (or \<^verbatim>\<open>.y\<close>) assigns to a coordinate of the library's
  vector, which is an immutable tuple: the statement raises \<^verbatim>\<open>AttributeError\<close> and the
  velocity is not changed.
\<close>

definition update_vortex :: "real \<Rightarrow> real \<Rightarrow> real \<Rightarrow> Vortex \<Rightarrow> error + Vortex" where
  "update_vortex width height dt vortex =
     (let pos = vec_add (vortex_position vortex) (vec_scale (vortex_velocity vortex) dt)
      in if fst pos < 0 \<or> fst pos > width then Inl AttributeError
         else if snd pos < 0 \<or> snd pos > height then Inl AttributeError
         else Inr (vortex\<lparr>vortex_position := pos\<rparr>))"

fun update_vortices_loop :: "real \<Rightarrow> real \<Rightarrow> real \<Rightarrow> Vortex list \<Rightarrow> error + Vortex list" where
  "update_vortices_loop width height dt [] = Inr []"
| "update_vortices_loop width height dt (vortex # rest) =
     (case update_vortex width height dt vortex of
        Inl e \<Rightarrow> Inl e
      | Inr vortex' \<Rightarrow>
          (case update_vortices_loop width height dt rest of
             Inl e \<Rightarrow> Inl e
           | Inr rest' \<Rightarrow> Inr (vortex' # rest')))"

definition update_vortices :: "real \<Rightarrow> real \<Rightarrow> real \<Rightarrow> World \<Rightarrow> error + World" where
  "update_vortices width height dt w =
     (case update_vortices_loop width height dt (vortices w) of
        Inl e \<Rightarrow> Inl e
      | Inr vs \<Rightarrow> Inr (w\<lparr>vortices := vs\<rparr>))"

section \<open>Boundary collision\<close>

text \<open>The velocity and position \<^verbatim>\<open>check_particle_mask_collision\<close> assigns on a hit.\<close>

definition bounce :: "Segment \<Rightarrow> Particle \<Rightarrow> Vec2d \<Rightarrow> Vec2d \<Rightarrow> Particle" where
  "bounce segment particle old_pos new_pos =
     (let segment_vec = vec_sub (seg_b segment) (seg_a segment);
          normal = perpendicular_normal segment_vec;
          v = velocity particle;
          reflection = vec_sub v (vec_scale normal (2 * vec_dot v normal));
          penetration_depth = vec_dot (vec_sub new_pos old_pos) normal
      in particle\<lparr>velocity := vec_scale reflection 0.9,
                   position := vec_add old_pos
                      (vec_scale normal (penetration_depth + size_p particle / 2 + 1))\<rparr>)"

fun check_particle_mask_collision ::
  "Segment list \<Rightarrow> Particle \<Rightarrow> Vec2d \<Rightarrow> Vec2d \<Rightarrow> Particle" where
  "check_particle_mask_collision [] particle old_pos new_pos = particle"
| "check_particle_mask_collision (segment # rest) particle old_pos new_pos =
     (if line_segment_intersect old_pos new_pos (seg_a segment) (seg_b segment)
      then bounce segment particle old_pos new_pos
      else check_particle_mask_collision rest particle old_pos new_pos)"

text \<open>The body of the loop \<^verbatim>\<open>for particle in self.particles\<close> of \<^verbatim>\<open>update_particle_system\<close>.\<close>

definition move_particle :: "World \<Rightarrow> real \<Rightarrow> bool \<Rightarrow> Particle \<Rightarrow> Particle" where
  "move_particle w sub_dt respect particle =
     (let p1 = apply_vortex_force (vortices w) particle;
          p2 = apply_gravity_well_force (well_strength_multiplier w) (gravity_wells w) p1;
          old_pos = position p2;
          new_pos = vec_add old_pos (vec_scale (velocity p2) sub_dt);
          p3 = (if respect then check_particle_mask_collision (mask_shapes w) p2 old_pos new_pos
                else p2)
      in p3\<lparr>position := new_pos\<rparr>)"

text \<open>\<^verbatim>\<open>update_mask_boundary\<close>: the segments between consecutive points of each simplified
  contour with at least three points, the last point joined to the first.\<close>

definition contour_segments :: "Vec2d list \<Rightarrow> Segment list" where
  "contour_segments points =
     (if length points < 3 then []
      else map (\<lambda>i. \<lparr>seg_a = points ! i, seg_b = points ! (Suc i mod length points)\<rparr>)
             [0..<length points])"

definition update_mask_boundary :: "Env \<Rightarrow> Mask \<Rightarrow> World \<Rightarrow> World" where
  "update_mask_boundary env current_mask w =
     w\<lparr>mask_shapes := concat (map contour_segments (contours env current_mask))\<rparr>"

section \<open>Emission\<close>

text \<open>\<^verbatim>\<open>math.radians\<close>, \<^verbatim>\<open>random.uniform(a, b)\<close> on the \<open>k\<close>-th random number, and Python's
  \<^verbatim>\<open>int()\<close> of a float, which truncates towards zero.\<close>

definition radians :: "real \<Rightarrow> real" where
  "radians d = d * pi / 180"

definition uniform :: "Env \<Rightarrow> nat \<Rightarrow> real \<Rightarrow> real \<Rightarrow> real" where
  "uniform env k a b = a + (b - a) * rnd env k"

definition py_int :: "real \<Rightarrow> int" where
  "py_int r = (if r \<ge> 0 then \<lfloor>r\<rfloor> else \<lceil>r\<rceil>)"

definition emit_particle :: "Env \<Rightarrow> Emitter \<Rightarrow> nat \<Rightarrow> nat \<Rightarrow> nat \<Rightarrow> World \<Rightarrow> World" where
  "emit_particle env emitter height width emitter_index w =
     (let emitter_pos = (emitter_x emitter * real width, emitter_y emitter * real height);
          direction = radians (particle_direction emitter);
          spread = radians (particle_spread emitter);
          angle = uniform env (random_draws w) (direction - spread / 2) (direction + spread / 2);
          vel = vec_scale (cos angle, sin angle) (particle_speed emitter);
          particle = \<lparr>position = emitter_pos, velocity = vel, force = (0, 0),
                      creation_time = current_time_step w, lifetime = particle_lifetime w,
                      size_p = particle_size emitter, color_p = color emitter\<rparr>
      in w\<lparr>particles := particles w @ [particle],
            total_particles_emitted := total_particles_emitted w + 1,
            random_draws := Suc (random_draws w)\<rparr>)"

text \<open>
  The inner loop of the emission step,
  \<^verbatim>\<open>while self.particles_to_emit[i] >= 1 and self.total_particles_emitted < self.max_particles\<close>.
  Each round emits one particle, so the distance of the counter to the maximum decreases.
\<close>

function emit_while :: "Env \<Rightarrow> Emitter \<Rightarrow> nat \<Rightarrow> nat \<Rightarrow> nat \<Rightarrow> World \<Rightarrow> World" where
  "emit_while env emitter height width i w =
     (if particles_to_emit w ! i \<ge> 1 \<and> total_particles_emitted w < max_particles w then
        emit_while env emitter height width i
          ((emit_particle env emitter height width i w)
             \<lparr>particles_to_emit := (particles_to_emit w)[i := particles_to_emit w ! i - 1]\<rparr>)
      else w)"
  by pat_completeness auto
termination
  by (relation "measure (\<lambda>(env, emitter, height, width, i, w).
        nat (max_particles w - total_particles_emitted w))")
     (auto simp: emit_particle_def Let_def)

declare emit_while.simps [simp del]

text \<open>One round of \<^verbatim>\<open>for i, emitter in enumerate(self.emitters)\<close>. The accumulator list is
  indexed by the emitter's index; an index outside the list raises.\<close>

definition emit_from :: "Env \<Rightarrow> nat \<Rightarrow> nat \<Rightarrow> real \<Rightarrow> nat \<Rightarrow> Emitter \<Rightarrow> World \<Rightarrow> error + World" where
  "emit_from env height width sub_dt i emitter w =
     (if i < length (particles_to_emit w) then
        Inr (emit_while env emitter height width i
               (w\<lparr>particles_to_emit :=
                    (particles_to_emit w)[i := particles_to_emit w ! i + emission_rate emitter * sub_dt]\<rparr>))
      else Inl IndexError)"

fun emit_all :: "Env \<Rightarrow> nat \<Rightarrow> nat \<Rightarrow> real \<Rightarrow> (nat \<times> Emitter) list \<Rightarrow> World \<Rightarrow> error + World" where
  "emit_all env height width sub_dt [] w = Inr w"
| "emit_all env height width sub_dt ((i, emitter) # rest) w =
     (case emit_from env height width sub_dt i emitter w of
        Inl e \<Rightarrow> Inl e
      | Inr w' \<Rightarrow> emit_all env height width sub_dt rest w')"

section \<open>The simulation step\<close>

text \<open>\<^verbatim>\<open>self.space.step(sub_dt)\<close>: the engine advances the bodies, and the time step of this
  call is what \<^verbatim>\<open>space.current_time_step\<close> returns from now on.\<close>

definition space_step :: "Env \<Rightarrow> real \<Rightarrow> World \<Rightarrow> World" where
  "space_step env dt w =
     w\<lparr>current_time_step := dt,
       particles := engine env dt (space_gravity w) (mask_shapes w) (particles w)\<rparr>"

text \<open>One round of \<^verbatim>\<open>for _ in range(sub_steps)\<close>: emission, the particle loop, the engine.\<close>

definition sub_step :: "Env \<Rightarrow> nat \<Rightarrow> nat \<Rightarrow> real \<Rightarrow> bool \<Rightarrow> World \<Rightarrow> error + World" where
  "sub_step env height width sub_dt respect w =
     (case emit_all env height width sub_dt (enumerate 0 (emitters w)) w of
        Inl e \<Rightarrow> Inl e
      | Inr w1 \<Rightarrow>
          Inr (space_step env sub_dt
                 (w1\<lparr>particles := map (move_particle w1 sub_dt respect) (particles w1)\<rparr>)))"

fun sub_step_loop :: "nat \<Rightarrow> Env \<Rightarrow> nat \<Rightarrow> nat \<Rightarrow> real \<Rightarrow> bool \<Rightarrow> World \<Rightarrow> error + World" where
  "sub_step_loop 0 env height width sub_dt respect w = Inr w"
| "sub_step_loop (Suc n) env height width sub_dt respect w =
     (case sub_step env height width sub_dt respect w of
        Inl e \<Rightarrow> Inl e
      | Inr w' \<Rightarrow> sub_step_loop n env height width sub_dt respect w')"

text \<open>\<^verbatim>\<open>height, width = current_mask.shape\<close>.\<close>

definition mask_height :: "Mask \<Rightarrow> nat" where
  "mask_height m = length m"

definition mask_width :: "Mask \<Rightarrow> nat" where
  "mask_width m = (case m of [] \<Rightarrow> 0 | row # _ \<Rightarrow> length row)"

definition sub_steps :: nat where
  "sub_steps = 5"

text \<open>The list comprehension that ends \<^verbatim>\<open>update_particle_system\<close>.\<close>

definition cull :: "World \<Rightarrow> World" where
  "cull w =
     (let current_time = current_time_step w
      in w\<lparr>particles := filter (\<lambda>p. current_time - creation_time p < lifetime p) (particles w)\<rparr>)"

definition update_particle_system :: "Env \<Rightarrow> real \<Rightarrow> Mask \<Rightarrow> bool \<Rightarrow> World \<Rightarrow> error + World" where
  "update_particle_system env dt current_mask respect w =
     (let w1 = (if respect then update_mask_boundary env current_mask w else w);
          height = mask_height current_mask;
          width = mask_width current_mask
      in case update_vortices (real width) (real height) dt w1 of
           Inl e \<Rightarrow> Inl e
         | Inr w2 \<Rightarrow>
             (let sub_dt = dt / real sub_steps
              in (case sub_step_loop sub_steps env height width sub_dt respect w2 of
                    Inl e \<Rightarrow> Inl e
                  | Inr w3 \<Rightarrow> Inr (cull w3))))"

section \<open>Setup\<close>

text \<open>\<^verbatim>\<open>initialize\<close>: a fresh physics space (zero gravity, its clock at zero) and empty fields.
  The fields that only \<^verbatim>\<open>setup_particle_system\<close> creates are given a value here.\<close>

definition initialize :: World where
  "initialize =
     \<lparr>space_gravity = (0, 0), current_time_step = 0, particles = [], mask_shapes = [],
      particles_to_emit = [], total_particles_emitted = 0, max_particles = 0, emitters = [],
      gravity_wells = [], vortices = [], well_strength_multiplier = 0, particle_lifetime = 0,
      random_draws = 0\<rparr>"

text \<open>\<^verbatim>\<open>initialize_vortices\<close>: each vortex draws two random numbers for its direction.\<close>

fun initialize_vortices_loop :: "Env \<Rightarrow> nat \<Rightarrow> nat \<Rightarrow> VortexSpec list \<Rightarrow> World \<Rightarrow> World" where
  "initialize_vortices_loop env width height [] w = w"
| "initialize_vortices_loop env width height (vortex # rest) w =
     (let x = vs_x vortex * real width;
          y = vs_y vortex * real height;
          k = random_draws w;
          vortex_obj =
            \<lparr>vortex_position = (x, y),
             vortex_velocity =
               vec_scale (normalized (uniform env k (- 1) 1, uniform env (Suc k) (- 1) 1))
                 (movement_speed vortex),
             vortex_strength = vs_strength vortex,
             vortex_radius = vs_radius vortex,
             inward_factor = vs_inward_factor vortex\<rparr>
      in initialize_vortices_loop env width height rest
           (w\<lparr>vortices := vortices w @ [vortex_obj], random_draws := Suc (Suc k)\<rparr>))"

definition initialize_vortices :: "Env \<Rightarrow> nat \<Rightarrow> nat \<Rightarrow> VortexSpec list \<Rightarrow> World \<Rightarrow> World" where
  "initialize_vortices env width height specs w =
     initialize_vortices_loop env width height specs (w\<lparr>vortices := []\<rparr>)"

definition initialize_gravity_wells :: "nat \<Rightarrow> nat \<Rightarrow> WellSpec list \<Rightarrow> World \<Rightarrow> World" where
  "initialize_gravity_wells width height wells w =
     w\<lparr>gravity_wells :=
          map (\<lambda>well. \<lparr>well_position = (ws_x well * real width, ws_y well * real height),
                        well_strength = ws_strength well,
                        well_radius = ws_radius well,
                        well_type = ws_type well\<rparr>) wells\<rparr>"

text \<open>The number of particles of an emitter's initial plume, and the plume: the body of
  \<^verbatim>\<open>for emitter in self.emitters\<close> in \<^verbatim>\<open>setup_particle_system\<close>.\<close>

definition initial_particle_count :: "World \<Rightarrow> Emitter \<Rightarrow> int" where
  "initial_particle_count w emitter =
     py_int (real_of_int (max_particles w) * initial_plume emitter / real (length (emitters w)))"

definition initial_burst :: "Env \<Rightarrow> nat \<Rightarrow> nat \<Rightarrow> Emitter \<Rightarrow> World \<Rightarrow> World" where
  "initial_burst env height width emitter w =
     ((emit_particle env emitter height width 0) ^^ nat (initial_particle_count w emitter)) w"

text \<open>
  \<^verbatim>\<open>setup_particle_system\<close>. \<^verbatim>\<open>max\<close> of an empty emitter list raises \<^verbatim>\<open>ValueError\<close>, a zero
  cell size makes the division of the spatial-hash size raise \<^verbatim>\<open>ZeroDivisionError\<close>, and a
  missing \<^verbatim>\<open>well_strength_multiplier\<close> raises \<^verbatim>\<open>KeyError\<close> at the last line.
\<close>

definition setup_particle_system :: "Env \<Rightarrow> nat \<Rightarrow> nat \<Rightarrow> Config \<Rightarrow> World \<Rightarrow> error + World" where
  "setup_particle_system env width height cfg w =
     (if cfg_emitters cfg = [] then Inl ValueError
      else
        let cell_size = Max (set (map particle_size (cfg_emitters cfg))) * 2.5
        in if cell_size * cell_size = 0 then Inl ZeroDivisionError
           else
             let w1 = w\<lparr>space_gravity := (wind_strength cfg, gravity cfg),
                        emitters := cfg_emitters cfg,
                        max_particles := particle_count cfg,
                        particle_lifetime := cfg_particle_lifetime cfg,
                        particles_to_emit := replicate (length (cfg_emitters cfg)) 0,
                        total_particles_emitted := 0\<rparr>;
                 w2 = fold (initial_burst env height width) (emitters w1) w1;
                 w3 = (case cfg_vortices cfg of
                         Some specs \<Rightarrow> initialize_vortices env width height specs w2
                       | None \<Rightarrow> w2\<lparr>vortices := []\<rparr>);
                 w4 = (case cfg_wells cfg of
                         Some wells \<Rightarrow> initialize_gravity_wells width height wells w3
                       | None \<Rightarrow> w3\<lparr>gravity_wells := []\<rparr>)
             in case cfg_well_strength_multiplier cfg of
                  None \<Rightarrow> Inl KeyError
                | Some m \<Rightarrow> Inr (w4\<lparr>well_strength_multiplier := m\<rparr>))"

section \<open>The frame driver\<close>

text \<open>\<^verbatim>\<open>np.stack([masks_np[i]] * 3, axis=-1)\<close>: every pixel value three times.\<close>

definition stack3 :: "Mask \<Rightarrow> Image" where
  "stack3 m = map (map (\<lambda>v. [v, v, v])) m"

text \<open>The frame range of \<^verbatim>\<open>process_mask\<close>: \<^verbatim>\<open>start_frame\<close> defaults to 0, \<^verbatim>\<open>end_frame\<close> to the
  number of frames, and an \<^verbatim>\<open>end_frame\<close> that is not positive is replaced by the number of
  frames.\<close>

definition effective_start :: "Config \<Rightarrow> int" where
  "effective_start cfg = (case start_frame cfg of None \<Rightarrow> 0 | Some s \<Rightarrow> s)"

definition effective_end :: "Config \<Rightarrow> nat \<Rightarrow> int" where
  "effective_end cfg num_frames =
     (let end_frame0 = (case end_frame cfg of None \<Rightarrow> int num_frames | Some e \<Rightarrow> e)
      in if end_frame0 > 0 then end_frame0 else int num_frames)"

text \<open>The body of \<^verbatim>\<open>for i in range(num_frames)\<close>: the outputs of frame \<open>i\<close> and the world
  after it. \<open>start\<close> and \<open>end\<close> are the frame range as the loop compares it.\<close>

definition process_frame ::
  "Env \<Rightarrow> int \<Rightarrow> int \<Rightarrow> bool \<Rightarrow> nat \<Rightarrow> Mask \<Rightarrow> World \<Rightarrow> error + ((Mask \<times> Image) \<times> World)" where
  "process_frame env start end respect i frame w =
     (if int i < start \<or> int i \<ge> end then Inr ((frame, stack3 frame), w)
      else case update_particle_system env (1 / 30) frame respect w of
             Inl e \<Rightarrow> Inl e
           | Inr w' \<Rightarrow> Inr (process_single_mask env w' frame i, w'))"

fun run_frames ::
  "Env \<Rightarrow> int \<Rightarrow> int \<Rightarrow> bool \<Rightarrow> nat \<Rightarrow> Mask list \<Rightarrow> World \<Rightarrow> error + ((Mask \<times> Image) list \<times> World)" where
  "run_frames env start end respect i [] w = Inr ([], w)"
| "run_frames env start end respect i (frame # rest) w =
     (case process_frame env start end respect i frame w of
        Inl e \<Rightarrow> Inl e
      | Inr (out, w') \<Rightarrow>
          (case run_frames env start end respect (Suc i) rest w' of
             Inl e \<Rightarrow> Inl e
           | Inr (outs, w'') \<Rightarrow> Inr (out # outs, w'')))"

text \<open>\<^verbatim>\<open>process_mask\<close>: the masks and images of all frames, and the world after the run.
  Stacking the results of an empty frame sequence raises \<^verbatim>\<open>ValueError\<close>.\<close>

definition process_mask ::
  "Env \<Rightarrow> Mask list \<Rightarrow> Config \<Rightarrow> World \<Rightarrow> error + ((Mask list \<times> Image list) \<times> World)" where
  "process_mask env masks cfg w =
     (let num_frames = length masks;
          height = (case masks of [] \<Rightarrow> 0 | m # _ \<Rightarrow> mask_height m);
          width = (case masks of [] \<Rightarrow> 0 | m # _ \<Rightarrow> mask_width m);
          start = effective_start cfg;
          end = effective_end cfg num_frames
      in case setup_particle_system env width height cfg w of
           Inl e \<Rightarrow> Inl e
         | Inr w1 \<Rightarrow>
             (let respect = (case respect_mask_boundary cfg of None \<Rightarrow> False | Some r \<Rightarrow> r)
              in (case run_frames env start end respect 0 masks w1 of
                    Inl e \<Rightarrow> Inl e
                  | Inr (outs, w2) \<Rightarrow>
                      if masks = [] then Inl ValueError
                      else Inr ((map fst outs, map snd outs), w2))))"

section \<open>Predicates and quantities of the statements\<close>


definition vortex_in_range :: "Vec2d \<Rightarrow> Vortex \<Rightarrow> bool" where
  "vortex_in_range pos vortex \<longleftrightarrow>
     vec_length (vec_sub pos (vortex_position vortex)) < vortex_radius vortex"

definition well_distance :: "Well \<Rightarrow> Vec2d \<Rightarrow> real" where
  "well_distance well pos = vec_length (vec_sub (well_position well) pos)"

definition vec_sum :: "Vec2d list \<Rightarrow> Vec2d" where
  "vec_sum vs = (sum_list (map fst vs), sum_list (map snd vs))"

text \<open>A configuration whose maximum particle count is not negative and whose emitters all
  have an initial plume fraction between 0 and 1.\<close>

definition plumes_ok :: "Config \<Rightarrow> bool" where
  "plumes_ok cfg \<longleftrightarrow>
     0 \<le> particle_count cfg \<and>
     list_all (\<lambda>emitter. 0 \<le> initial_plume emitter \<and> initial_plume emitter \<le> 1) (cfg_emitters cfg)"

text \<open>The integration step of the particle loop alone,
  \<^verbatim>\<open>particle.position = old_pos + particle.velocity * sub_dt\<close>.\<close>

definition drift :: "real \<Rightarrow> Particle \<Rightarrow> Particle" where
  "drift sub_dt p = p\<lparr>position := vec_add (position p) (vec_scale (velocity p) sub_dt)\<rparr>"

section \<open>Invariants used in the proofs\<close>

text \<open>From \<open>w\<close> to \<open>w'\<close> the configuration of the emission is kept, the counter of emitted
  particles does not decrease, and it stays below the maximum if it was.\<close>

definition counter_advances :: "World \<Rightarrow> World \<Rightarrow> bool" where
  "counter_advances w w' \<longleftrightarrow>
     max_particles w' = max_particles w \<and> emitters w' = emitters w \<and>
     length (particles_to_emit w') = length (particles_to_emit w) \<and>
     total_particles_emitted w \<le> total_particles_emitted w' \<and>
     (total_particles_emitted w \<le> max_particles w \<longrightarrow>
        total_particles_emitted w' \<le> max_particles w')"

section \<open>Example inputs\<close>

text \<open>A horizontal boundary segment and a particle falling through it.\<close>

definition seg0 :: Segment where
  "seg0 = \<lparr>seg_a = (0, 0), seg_b = (2, 0)\<rparr>"

definition particle0 :: Particle where
  "particle0 = \<lparr>position = (1, 1), velocity = (0, - 300), force = (0, 0), creation_time = 0,
                 lifetime = 4, size_p = 4, color_p = (1, 1, 1)\<rparr>"

text \<open>A particle that starts on the segment and moves up from it.\<close>

definition touch_particle :: Particle where
  "touch_particle = \<lparr>position = (1, 0), velocity = (0, 150), force = (0, 0), creation_time = 0,
                      lifetime = 4, size_p = 2, color_p = (1, 1, 1)\<rparr>"

text \<open>Two vortices whose radius of influence contains the particle.\<close>

definition vortex1 :: Vortex where
  "vortex1 = \<lparr>vortex_position = (0, 0), vortex_velocity = (0, 0), vortex_strength = 3,
               vortex_radius = 10, inward_factor = 1\<rparr>"

definition vortex2 :: Vortex where
  "vortex2 = \<lparr>vortex_position = (2, 2), vortex_velocity = (0, 0), vortex_strength = 1,
               vortex_radius = 5, inward_factor = 1 / 2\<rparr>"

definition particle1 :: Particle where
  "particle1 = \<lparr>position = (2, 0), velocity = (7, 7), force = (0, 0), creation_time = 0,
                 lifetime = 4, size_p = 4, color_p = (1, 1, 1)\<rparr>"

text \<open>An attracting well of radius 4 at the origin.\<close>

definition well0 :: Well where
  "well0 = \<lparr>well_position = (0, 0), well_strength = 1, well_radius = 4, well_type = ''attract''\<rparr>"

text \<open>A world whose boundary is the single segment \<open>seg0\<close>.\<close>

definition world3 :: World where
  "world3 = initialize\<lparr>mask_shapes := [seg0]\<rparr>"

text \<open>
  An environment: every random number is 0, the engine leaves the bodies alone, no contour
  is found, and the rasterizer sets every pixel to 1 when there is a live particle.
\<close>

definition env0 :: Env where
  "env0 = \<lparr>rnd = (\<lambda>k. 0), engine = (\<lambda>dt g segs ps. ps),
            contours = (\<lambda>m. []),
            process_single_mask = (\<lambda>w m i.
              let drawn = map (map (\<lambda>v. if particles w = [] then v else 1)) m
              in (drawn, stack3 drawn))\<rparr>"

text \<open>One emitter in the middle of the frame, 30 particles per second, and a configuration
  with a maximum of one particle, emitted as the initial plume, and a particle lifetime of
  a tenth of a second. Its \<^verbatim>\<open>start_frame\<close> and \<^verbatim>\<open>end_frame\<close> are 0, the defaults of the node.\<close>

definition emitter0 :: Emitter where
  "emitter0 = \<lparr>emitter_x = 1 / 2, emitter_y = 1 / 2, particle_direction = 0, particle_spread = 0,
                particle_speed = 30, particle_size = 2, color = (1, 1, 1), emission_rate = 30,
                initial_plume = 1\<rparr>"

definition cfg0 :: Config where
  "cfg0 = \<lparr>wind_strength = 0, gravity = 0, particle_count = 1, cfg_particle_lifetime = 1 / 10,
            cfg_emitters = [emitter0], cfg_vortices = None, cfg_wells = None,
            cfg_well_strength_multiplier = Some 1, start_frame = Some 0, end_frame = Some 0,
            respect_mask_boundary = None\<rparr>"

text \<open>The particle of the initial plume and the world after the setup of \<open>cfg0\<close> on a frame
  of one pixel. \<open>world_at x a t\<close> is that world with the particle at \<open>(x, 1 / 2)\<close>, the
  accumulator at \<open>a\<close> and the clock at \<open>t\<close>; it gives the world after one frame and after
  four frames.\<close>

definition particle_e0 :: Particle where
  "particle_e0 = \<lparr>position = (1 / 2, 1 / 2), velocity = (30, 0), force = (0, 0),
                   creation_time = 0, lifetime = 1 / 10, size_p = 2, color_p = (1, 1, 1)\<rparr>"

definition world1 :: World where
  "world1 = \<lparr>space_gravity = (0, 0), current_time_step = 0, particles = [particle_e0],
              mask_shapes = [], particles_to_emit = [0], total_particles_emitted = 1,
              max_particles = 1, emitters = [emitter0], gravity_wells = [], vortices = [],
              well_strength_multiplier = 1, particle_lifetime = 1 / 10, random_draws = 1\<rparr>"

definition world_at :: "real \<Rightarrow> real \<Rightarrow> real \<Rightarrow> World" where
  "world_at x a t = world1\<lparr>particles := [particle_e0\<lparr>position := (x, 1 / 2)\<rparr>],
                         particles_to_emit := [a], current_time_step := t\<rparr>"

definition world1_after :: World where
  "world1_after = world_at (3 / 2) 1 (1 / 150)"

definition world1_after4 :: World where
  "world1_after4 = world_at (9 / 2) 4 (1 / 150)"

text \<open>The configuration with a maximum of zero particles, and one whose emitter has an
  initial plume of 2, with the worlds their setup gives.\<close>

definition cfg_zero :: Config where
  "cfg_zero = cfg0\<lparr>particle_count := 0\<rparr>"

definition world_zero :: World where
  "world_zero = world1\<lparr>particles := [], total_particles_emitted := 0, max_particles := 0,
                        random_draws := 0\<rparr>"

definition emitter_over :: Emitter where
  "emitter_over = emitter0\<lparr>initial_plume := 2\<rparr>"

definition cfg_over :: Config where
  "cfg_over = cfg0\<lparr>cfg_emitters := [emitter_over]\<rparr>"

definition world_over :: World where
  "world_over = world1\<lparr>particles := [particle_e0, particle_e0], total_particles_emitted := 2,
                        emitters := [emitter_over], random_draws := 2\<rparr>"

text \<open>A world with room for four more particles and an accumulator of 0.9, and the world
  after the next emission check.\<close>

definition world_room :: World where
  "world_room = world1\<lparr>particles_to_emit := [9 / 10], max_particles := 5\<rparr>"

definition world_room_after :: World where
  "world_room_after = world1\<lparr>particles := [particle_e0, particle_e0],
                               particles_to_emit := [1 / 10], total_particles_emitted := 2,
                               max_particles := 5, random_draws := 2\<rparr>"

text \<open>In a frame of width and height 2: a vortex that stays inside the frame during one
  frame, a world with it, that world after one frame, a vortex that leaves the frame
  within one frame, and a world with it.\<close>

definition vortex_slow :: Vortex where
  "vortex_slow = \<lparr>vortex_position = (1, 1), vortex_velocity = (3, 0), vortex_strength = 1,
                   vortex_radius = 1, inward_factor = 0\<rparr>"

definition world_v :: World where
  "world_v = initialize\<lparr>vortices := [vortex_slow]\<rparr>"

definition world_v_after :: World where
  "world_v_after = initialize\<lparr>vortices := [vortex_slow\<lparr>vortex_position := (11 / 10, 1)\<rparr>],
                              current_time_step := 1 / 150\<rparr>"

definition vortex_in :: Vortex where
  "vortex_in = \<lparr>vortex_position = (1, 1), vortex_velocity = (90, - 45), vortex_strength = 1,
                 vortex_radius = 1, inward_factor = 0\<rparr>"

definition world_cross :: World where
  "world_cross = initialize\<lparr>vortices := [vortex_in]\<rparr>"

text \<open>The configuration \<open>cfg0\<close> with the frame range from 1 to 2.\<close>

definition cfg_late :: Config where
  "cfg_late = cfg0\<lparr>start_frame := Some 1, end_frame := Some 2\<rparr>"

section \<open>Vector lemmas\<close>

lemmas vec_defs = vec_add_def vec_sub_def vec_neg_def vec_scale_def vec_dot_def

lemma ccw_cross: "ccw A B C \<longleftrightarrow> cross A B C > 0"
  by (simp add: ccw_def cross_def algebra_simps)

lemma sqrt_sq_sum_zero_iff: "sqrt (x * x + y * y) = 0 \<longleftrightarrow> x = 0 \<and> y = 0"
  by (simp add: sum_squares_eq_zero_iff flip: power2_eq_square)

lemma vec_length_zero_iff: "vec_length a = 0 \<longleftrightarrow> a = (0, 0)"
  by (cases a) (simp add: vec_length_def sqrt_sq_sum_zero_iff)

lemma vec_length_nonneg: "0 \<le> vec_length a"
  by (simp add: vec_length_def)


lemma vec_length_scale: "vec_length (vec_scale a s) = \<bar>s\<bar> * vec_length a"
proof -
  have "fst a * s * (fst a * s) + snd a * s * (snd a * s) = s\<^sup>2 * (fst a * fst a + snd a * snd a)"
    by (simp add: power2_eq_square algebra_simps)
  then show ?thesis
    by (simp add: vec_length_def vec_scale_def real_sqrt_mult)
qed

lemma vec_length_neg: "vec_length (vec_neg a) = vec_length a"
  by (simp add: vec_length_def vec_neg_def)

lemma vec_length_x: "vec_length (x, 0) = \<bar>x\<bar>"
  by (simp add: vec_length_def)


lemma vec_add_zero: "vec_add a (0, 0) = a"
  by (simp add: vec_add_def)

lemma vec_add_assoc: "vec_add (vec_add a b) c = vec_add a (vec_add b c)"
  by (simp add: vec_add_def)

lemma vec_sum_Cons: "vec_sum (v # vs) = vec_add v (vec_sum vs)"
  by (simp add: vec_sum_def vec_add_def)

lemma normalized_length: "a \<noteq> (0, 0) \<Longrightarrow> vec_length (normalized a) = 1"
proof -
  assume "a \<noteq> (0, 0)"
  then have l: "vec_length a \<noteq> 0" by (simp add: vec_length_zero_iff)
  have "normalized a = vec_scale a (1 / vec_length a)"
    using l by (simp add: normalized_def Let_def vec_scale_def)
  then have "vec_length (normalized a) = \<bar>1 / vec_length a\<bar> * vec_length a"
    by (simp only: vec_length_scale)
  then show ?thesis using l vec_length_nonneg[of a] by simp
qed

lemma normalized_zero: "normalized (0, 0) = (0, 0)"
  by (simp add: normalized_def vec_length_def)





lemma sqrt16: "sqrt 16 = 4"
  by (rule real_sqrt_unique) simp_all

section \<open>Boundary collision\<close>







text \<open>
  \<^bold>\<open>Claim C3\<close> at a concrete input. The particle \<open>particle0\<close> moves from \<open>(1, 1)\<close> to
  \<open>(1, - 1)\<close> through \<open>seg0\<close>. The collision routine reflects the velocity and sets the
  position to \<open>(1, 2)\<close>, outside the boundary along the normal; the next statement of the
  particle loop, \<^verbatim>\<open>particle.position = new_pos\<close>, then replaces that position by the
  integrated position \<open>(1, - 1)\<close> on the other side of the segment.
\<close>

theorem push_out_overwritten:
  "move_particle world3 (1 / 150) True particle0 =
     particle0\<lparr>velocity := (0, 270), position := (1, - 1)\<rparr> \<and>
   position (check_particle_mask_collision (mask_shapes world3) particle0 (1, 1) (1, - 1)) = (1, 2)"
  by (simp add: move_particle_def world3_def initialize_def apply_vortex_force_def
      apply_gravity_well_force_def particle0_def seg0_def line_segment_intersect_def ccw_def
      bounce_def Let_def perpendicular_normal_def vec_length_def vec_defs)

text \<open>
  \<^bold>\<open>Claim C10\<close>, as amended. The intersection test is false whenever both endpoints of one
  segment lie on the line through the other (so for collinear segments, overlapping or
  not); it is true for every proper crossing, where the endpoints of each segment lie
  strictly on opposite sides of the other; and when it is true, neither segment has both
  endpoints strictly on one side of the other. Touching contact is not excluded.
\<close>

theorem intersect_crossing:
  "(collinear3 p1 p3 p4 \<and> collinear3 p2 p3 p4 \<longrightarrow> \<not> line_segment_intersect p1 p2 p3 p4) \<and>
   (collinear3 p1 p2 p3 \<and> collinear3 p1 p2 p4 \<longrightarrow> \<not> line_segment_intersect p1 p2 p3 p4) \<and>
   (cross p1 p3 p4 * cross p2 p3 p4 < 0 \<and> cross p1 p2 p3 * cross p1 p2 p4 < 0
      \<longrightarrow> line_segment_intersect p1 p2 p3 p4) \<and>
   (line_segment_intersect p1 p2 p3 p4
      \<longrightarrow> cross p1 p3 p4 * cross p2 p3 p4 \<le> 0 \<and> cross p1 p2 p3 * cross p1 p2 p4 \<le> 0)"
proof (intro conjI impI)
  assume "collinear3 p1 p3 p4 \<and> collinear3 p2 p3 p4"
  then show "\<not> line_segment_intersect p1 p2 p3 p4"
    by (simp add: line_segment_intersect_def ccw_cross collinear3_def)
next
  assume "collinear3 p1 p2 p3 \<and> collinear3 p1 p2 p4"
  then show "\<not> line_segment_intersect p1 p2 p3 p4"
    by (simp add: line_segment_intersect_def ccw_cross collinear3_def)
next
  assume "cross p1 p3 p4 * cross p2 p3 p4 < 0 \<and> cross p1 p2 p3 * cross p1 p2 p4 < 0"
  then show "line_segment_intersect p1 p2 p3 p4"
    by (auto simp: line_segment_intersect_def ccw_cross mult_less_0_iff)
next
  assume a: "line_segment_intersect p1 p2 p3 p4"
  then show "cross p1 p3 p4 * cross p2 p3 p4 \<le> 0"
    by (auto simp: line_segment_intersect_def ccw_cross mult_le_0_iff not_less)
  from a show "cross p1 p2 p3 * cross p1 p2 p4 \<le> 0"
    by (auto simp: line_segment_intersect_def ccw_cross mult_le_0_iff not_less)
qed

text \<open>Collinear overlapping segments, and a proper crossing.\<close>

theorem intersect_crossing_witness:
  "(collinear3 (0, 0) (1, 0) (3, 0) \<and> collinear3 (2, 0) (1, 0) (3, 0) \<and>
    collinear3 (0, 0) (2, 0) (1, 0) \<and> collinear3 (0, 0) (2, 0) (3, 0) \<and>
    \<not> line_segment_intersect (0, 0) (2, 0) (1, 0) (3, 0)) \<and>
   (cross (1, 1) (0, 0) (2, 0) * cross (1, - 1) (0, 0) (2, 0) < 0 \<and>
    cross (1, 1) (1, - 1) (0, 0) * cross (1, 1) (1, - 1) (2, 0) < 0 \<and>
    line_segment_intersect (1, 1) (1, - 1) (0, 0) (2, 0))"
  using intersect_crossing[of "(0, 0)" "(1, 0)" "(3, 0)" "(2, 0)"]
        intersect_crossing[of "(1, 1)" "(0, 0)" "(2, 0)" "(1, - 1)"]
  by (simp add: collinear3_def cross_def)

text \<open>
  The claim as stated fails: the endpoint \<open>(1, 0)\<close> of the motion segment lies on \<open>seg0\<close>,
  the test is true, and the collision response reflects and damps the velocity.
\<close>

theorem touching_counterexample2:
  "on_segment (1, 0) (seg_a seg0) (seg_b seg0) \<and>
   line_segment_intersect (1, 0) (1, 1) (seg_a seg0) (seg_b seg0) \<and>
   velocity (check_particle_mask_collision [seg0] touch_particle (1, 0) (1, 1)) = (0, - 135)"
  by (simp add: on_segment_def collinear3_def cross_def line_segment_intersect_def ccw_def seg0_def
      touch_particle_def bounce_def Let_def perpendicular_normal_def vec_length_def vec_defs)

section \<open>Vortices\<close>

lemma vortex_step_cases:
  "vortex_step v p =
     (if vortex_in_range (position p) v then
        p\<lparr>velocity :=
            (let offset = vec_sub (position p) (vortex_position v);
                 d = vec_length offset
             in vec_add
                  (vec_scale (vec_scale (normalized (- snd offset, fst offset)) (vortex_strength v))
                     (d / vortex_radius v))
                  (vec_scale (vec_scale (vec_neg (normalized offset)) (vortex_strength v))
                     (inward_factor v)))\<rparr>
      else p)"
  by (simp add: vortex_step_def vortex_in_range_def Let_def)

lemma vortex_step_overwrite:
  "vortex_in_range (position p) v \<Longrightarrow> vortex_step v (p\<lparr>velocity := u\<rparr>) = vortex_step v p"
  by (simp add: vortex_step_cases)

lemma vortex_step_skip:
  "\<not> vortex_in_range (position p) v \<Longrightarrow> vortex_step v (p\<lparr>velocity := u\<rparr>) = p\<lparr>velocity := u\<rparr>"
  by (simp add: vortex_step_cases)

lemma vortex_step_shape: "\<exists>u. vortex_step v p = p\<lparr>velocity := u\<rparr>"
proof (cases "vortex_in_range (position p) v")
  case True
  then show ?thesis unfolding vortex_step_cases by (metis (full_types))
next
  case False
  then have "vortex_step v p = p\<lparr>velocity := velocity p\<rparr>" by (simp add: vortex_step_cases)
  then show ?thesis by blast
qed

lemma apply_vortex_force_last:
  "apply_vortex_force vs p =
     (if filter (vortex_in_range (position p)) vs = [] then p
      else vortex_step (last (filter (vortex_in_range (position p)) vs)) p) \<and>
   (\<exists>u. apply_vortex_force vs p = p\<lparr>velocity := u\<rparr>)"
proof (induction vs rule: rev_induct)
  case Nil
  have "p = p\<lparr>velocity := velocity p\<rparr>" by simp
  then show ?case unfolding apply_vortex_force_def by (metis filter.simps(1) fold_simps(1))
next
  case (snoc v vs)
  then obtain u where u: "apply_vortex_force vs p = p\<lparr>velocity := u\<rparr>" by blast
  have step: "apply_vortex_force (vs @ [v]) p = vortex_step v (p\<lparr>velocity := u\<rparr>)"
    using u by (simp add: apply_vortex_force_def)
  show ?case
  proof (cases "vortex_in_range (position p) v")
    case True
    then have "apply_vortex_force (vs @ [v]) p = vortex_step v p"
      by (simp add: step vortex_step_overwrite)
    then show ?thesis using True vortex_step_shape[of v p] by simp
  next
    case False
    then have a: "apply_vortex_force (vs @ [v]) p = apply_vortex_force vs p"
      by (simp add: step vortex_step_skip u)
    have b: "filter (vortex_in_range (position p)) (vs @ [v])
             = filter (vortex_in_range (position p)) vs"
      using False by simp
    show ?thesis unfolding a b by (rule snoc.IH)
  qed
qed

lemma hits12: "filter (vortex_in_range (position particle1)) [vortex1, vortex2] = [vortex1, vortex2]"
  by (simp add: vortex_in_range_def particle1_def vortex1_def vortex2_def vec_sub_def vec_length_def)

text \<open>
  \<^bold>\<open>Claim C6.\<close> If \<open>hits\<close>, the vortices of the list whose radius of influence contains the
  particle, is not empty, then one pass of \<^verbatim>\<open>apply_vortex_force\<close> gives the particle that the
  last vortex of \<open>hits\<close> alone gives: the position is unchanged and the velocity is the
  tangent scaled by strength times distance over radius plus the inward radial direction
  scaled by strength times inward factor, both of that last vortex. The earlier vortices
  have no effect.
\<close>

theorem vortex_last_write_wins:
  assumes "filter (vortex_in_range (position p)) vs = hits" and "hits \<noteq> []"
  shows "apply_vortex_force vs p = vortex_step (last hits) p \<and>
         apply_vortex_force vs p = apply_vortex_force [last hits] p \<and>
         position (apply_vortex_force vs p) = position p \<and>
         velocity (apply_vortex_force vs p) =
           (let v = last hits;
                offset = vec_sub (position p) (vortex_position v);
                d = vec_length offset
            in vec_add
                 (vec_scale (vec_scale (normalized (- snd offset, fst offset)) (vortex_strength v))
                    (d / vortex_radius v))
                 (vec_scale (vec_scale (vec_neg (normalized offset)) (vortex_strength v))
                    (inward_factor v)))"
proof -
  have l: "last hits \<in> set hits" using assms(2) by simp
  then have r: "vortex_in_range (position p) (last hits)" using assms(1) by auto
  have e: "apply_vortex_force vs p = vortex_step (last hits) p"
    using apply_vortex_force_last[of vs p] assms by simp
  have s: "apply_vortex_force [last hits] p = vortex_step (last hits) p"
    by (simp add: apply_vortex_force_def)
  show ?thesis
    unfolding s e using r by (simp add: vortex_step_cases Let_def)
qed

text \<open>Both \<open>vortex1\<close> and \<open>vortex2\<close> reach \<open>particle1\<close>; the velocity is the one of \<open>vortex2\<close>.\<close>

theorem vortex_last_write_wins_witness:
  "filter (vortex_in_range (position particle1)) [vortex1, vortex2] = [vortex1, vortex2] \<and>
   [vortex1, vortex2] \<noteq> [] \<and>
   apply_vortex_force [vortex1, vortex2] particle1 = apply_vortex_force [vortex2] particle1 \<and>
   velocity (apply_vortex_force [vortex1, vortex2] particle1) = (2 / 5, 1 / 2)"
proof -
  have n: "[vortex1, vortex2] \<noteq> []" by simp
  have l: "last [vortex1, vortex2] = vortex2" by simp
  have v: "(let v = last [vortex1, vortex2];
                offset = vec_sub (position particle1) (vortex_position v);
                d = vec_length offset
            in vec_add
                 (vec_scale (vec_scale (normalized (- snd offset, fst offset)) (vortex_strength v))
                    (d / vortex_radius v))
                 (vec_scale (vec_scale (vec_neg (normalized offset)) (vortex_strength v))
                    (inward_factor v))) = (2 / 5, 1 / 2)"
    by (simp add: Let_def particle1_def vortex2_def vec_defs vec_length_def normalized_def)
  show ?thesis
    using vortex_last_write_wins[OF hits12 n, unfolded v, unfolded l] hits12 n by blast
qed

section \<open>Gravity wells\<close>

lemma well_force_out: "\<not> well_distance well pos < well_radius well \<Longrightarrow> well_force m well pos = (0, 0)"
  by (simp add: well_force_def well_distance_def Let_def)

lemma well_step_eq:
  "well_step m well p = p\<lparr>force := vec_add (force p) (well_force m well (position p))\<rparr>"
proof (cases "well_distance well (position p) < well_radius well")
  case True
  then show ?thesis
    by (simp add: well_step_def well_distance_def Let_def apply_force_at_world_point_def)
next
  case False
  then have "well_step m well p = p"
    by (simp add: well_step_def well_distance_def Let_def)
  then show ?thesis using False by (simp add: well_force_out vec_add_zero)
qed

lemma apply_gravity_well_force_sum:
  "apply_gravity_well_force m wells p =
     p\<lparr>force := vec_add (force p) (vec_sum (map (\<lambda>w. well_force m w (position p)) wells))\<rparr>"
  unfolding apply_gravity_well_force_def
proof (induction wells arbitrary: p)
  case Nil
  then show ?case by (simp add: vec_sum_def vec_add_zero)
next
  case (Cons w wells)
  define q where "q = well_step m w p"
  have q: "q = p\<lparr>force := vec_add (force p) (well_force m w (position p))\<rparr>"
    unfolding q_def by (rule well_step_eq)
  have "fold (well_step m) (w # wells) p = fold (well_step m) wells q"
    by (simp add: q_def)
  also have "\<dots> = q\<lparr>force := vec_add (force q)
                        (vec_sum (map (\<lambda>w. well_force m w (position q)) wells))\<rparr>"
    by (rule Cons.IH)
  also have "\<dots> = p\<lparr>force := vec_add (force p)
                        (vec_sum (map (\<lambda>w. well_force m w (position p)) (w # wells)))\<rparr>"
    by (simp add: q vec_sum_Cons vec_add_assoc)
  finally show ?case .
qed

lemma well_force_in:
  assumes "well_distance well pos < well_radius well"
  shows "well_force m well pos =
           vec_scale (if well_type well = ''repel''
                      then vec_neg (normalized (vec_sub (well_position well) pos))
                      else normalized (vec_sub (well_position well) pos))
             (well_strength well * (1 - well_distance well pos / well_radius well) * m)"
  using assms by (simp add: well_force_def well_distance_def Let_def)

lemma well_force_zero_offset:
  assumes "well_distance well pos = 0"
  shows "well_force m well pos = (0, 0)"
proof (cases "well_distance well pos < well_radius well")
  case True
  have "vec_sub (well_position well) pos = (0, 0)"
    using assms by (simp add: well_distance_def vec_length_zero_iff)
  then show ?thesis
    by (simp add: well_force_in[OF True] normalized_zero vec_neg_def vec_scale_def)
next
  case False
  then show ?thesis by (rule well_force_out)
qed

lemma well_force_magnitude:
  assumes "0 < well_distance well pos" and "well_distance well pos < well_radius well"
  shows "vec_length (well_force m well pos) =
           \<bar>well_strength well * m\<bar> * (1 - well_distance well pos / well_radius well)"
proof -
  have nz: "vec_sub (well_position well) pos \<noteq> (0, 0)"
    using assms(1) by (auto simp: well_distance_def vec_length_def)
  have u: "vec_length (if well_type well = ''repel''
                      then vec_neg (normalized (vec_sub (well_position well) pos))
                      else normalized (vec_sub (well_position well) pos)) = 1"
    using normalized_length[OF nz] by (simp add: vec_length_neg)
  have "0 \<le> 1 - well_distance well pos / well_radius well"
    using assms by simp
  then have "\<bar>well_strength well * (1 - well_distance well pos / well_radius well) * m\<bar>
        = \<bar>well_strength well * m\<bar> * (1 - well_distance well pos / well_radius well)"
    by (simp add: abs_mult)
  then show ?thesis
    by (simp only: well_force_in[OF assms(2)] vec_length_scale u mult_1_right)
qed

lemma well0_distances:
  "well_distance well0 (0, 0) = 0" "well_distance well0 (1, 0) = 1"
  "well_distance well0 (2, 0) = 2" "well_distance well0 (4, 0) = 4"
  by (simp_all add: well_distance_def well0_def vec_sub_def vec_length_def sqrt16)

lemma well0_fields: "well_radius well0 = 4" "well_strength well0 = 1"
  by (simp_all add: well0_def)

text \<open>
  \<^bold>\<open>Claim C5\<close>, as amended. One pass of \<^verbatim>\<open>apply_gravity_well_force\<close> adds to the particle's
  force the sum of the forces of all wells. The force of a well at distance \<open>d\<close> is zero
  when \<open>d\<close> is at least the radius, and zero when \<open>d = 0\<close>. For \<open>0 < d < radius\<close> it is the
  unit vector towards the well (away from it for a repelling well) scaled by
  \<open>strength * (1 - d / radius) * multiplier\<close>, and its length is
  \<open>\<bar>strength * multiplier\<bar> * (1 - d / radius)\<close>. That length decreases strictly as \<open>d\<close>
  increases within \<open>0 < d < radius\<close>, provided \<open>strength * multiplier\<close> is not zero.
\<close>

theorem gravity_well_force:
  "apply_gravity_well_force m wells p =
     p\<lparr>force := vec_add (force p) (vec_sum (map (\<lambda>w. well_force m w (position p)) wells))\<rparr> \<and>
   (well_distance well pos \<ge> well_radius well \<longrightarrow> well_force m well pos = (0, 0)) \<and>
   (well_distance well pos = 0 \<longrightarrow> well_force m well pos = (0, 0)) \<and>
   (0 < well_distance well pos \<and> well_distance well pos < well_radius well \<longrightarrow>
      well_force m well pos =
        vec_scale (if well_type well = ''repel''
                   then vec_neg (normalized (vec_sub (well_position well) pos))
                   else normalized (vec_sub (well_position well) pos))
          (well_strength well * (1 - well_distance well pos / well_radius well) * m) \<and>
      vec_length (normalized (vec_sub (well_position well) pos)) = 1 \<and>
      vec_length (well_force m well pos) =
        \<bar>well_strength well * m\<bar> * (1 - well_distance well pos / well_radius well)) \<and>
   (0 < well_distance well pos \<and> well_distance well pos < well_distance well pos' \<and>
    well_distance well pos' < well_radius well \<and> well_strength well * m \<noteq> 0 \<longrightarrow>
      vec_length (well_force m well pos') < vec_length (well_force m well pos))"
proof (intro conjI impI)
  show "apply_gravity_well_force m wells p =
     p\<lparr>force := vec_add (force p) (vec_sum (map (\<lambda>w. well_force m w (position p)) wells))\<rparr>"
    by (rule apply_gravity_well_force_sum)
next
  assume "well_radius well \<le> well_distance well pos"
  then show "well_force m well pos = (0, 0)" by (simp add: well_force_out)
next
  assume "well_distance well pos = 0"
  then show "well_force m well pos = (0, 0)" by (rule well_force_zero_offset)
next
  assume a: "0 < well_distance well pos \<and> well_distance well pos < well_radius well"
  then show "well_force m well pos =
        vec_scale (if well_type well = ''repel''
                   then vec_neg (normalized (vec_sub (well_position well) pos))
                   else normalized (vec_sub (well_position well) pos))
          (well_strength well * (1 - well_distance well pos / well_radius well) * m)"
    by (simp add: well_force_in)
  have "vec_sub (well_position well) pos \<noteq> (0, 0)"
    using a by (auto simp: well_distance_def vec_length_def)
  then show "vec_length (normalized (vec_sub (well_position well) pos)) = 1"
    by (rule normalized_length)
  show "vec_length (well_force m well pos) =
        \<bar>well_strength well * m\<bar> * (1 - well_distance well pos / well_radius well)"
    using a by (simp add: well_force_magnitude)
next
  assume a: "0 < well_distance well pos \<and> well_distance well pos < well_distance well pos' \<and>
    well_distance well pos' < well_radius well \<and> well_strength well * m \<noteq> 0"
  then have r: "0 < well_radius well" by linarith
  have "well_distance well pos / well_radius well < well_distance well pos' / well_radius well"
    using a r by (simp add: divide_strict_right_mono)
  then have "1 - well_distance well pos' / well_radius well
             < 1 - well_distance well pos / well_radius well" by simp
  moreover have "0 < \<bar>well_strength well * m\<bar>" using a by simp
  ultimately have "\<bar>well_strength well * m\<bar> * (1 - well_distance well pos' / well_radius well)
        < \<bar>well_strength well * m\<bar> * (1 - well_distance well pos / well_radius well)"
    by (simp only: mult_strict_left_mono)
  then show "vec_length (well_force m well pos') < vec_length (well_force m well pos)"
    using a by (simp add: well_force_magnitude)
qed

text \<open>The well \<open>well0\<close> at the distances 4, 0, 1 and 2.\<close>

theorem gravity_well_force_witness:
  "well_distance well0 (4, 0) \<ge> well_radius well0 \<and> well_force 1 well0 (4, 0) = (0, 0) \<and>
   well_distance well0 (0, 0) = 0 \<and> well_force 1 well0 (0, 0) = (0, 0) \<and>
   0 < well_distance well0 (1, 0) \<and> well_distance well0 (1, 0) < well_distance well0 (2, 0) \<and>
   well_distance well0 (2, 0) < well_radius well0 \<and> well_strength well0 * 1 \<noteq> 0 \<and>
   vec_length (well_force 1 well0 (1, 0)) = 3 / 4 \<and>
   vec_length (well_force 1 well0 (2, 0)) < vec_length (well_force 1 well0 (1, 0))"
proof -
  have a: "well_force 1 well0 (4, 0) = (0, 0)"
    using gravity_well_force[of 1 "[]" particle0 well0 "(4, 0)" "(4, 0)"]
    by (simp add: well0_distances well0_fields)
  have b: "well_force 1 well0 (0, 0) = (0, 0)"
    using gravity_well_force[of 1 "[]" particle0 well0 "(0, 0)" "(0, 0)"]
    by (simp add: well0_distances well0_fields)
  have c: "vec_length (well_force 1 well0 (1, 0)) = 3 / 4 \<and>
           vec_length (well_force 1 well0 (2, 0)) < vec_length (well_force 1 well0 (1, 0))"
  proof -
    have h: "0 < well_distance well0 (1, 0) \<and> well_distance well0 (1, 0) < well_radius well0"
      by (simp add: well0_distances well0_fields)
    have h': "0 < well_distance well0 (1, 0) \<and>
              well_distance well0 (1, 0) < well_distance well0 (2, 0) \<and>
              well_distance well0 (2, 0) < well_radius well0 \<and> well_strength well0 * 1 \<noteq> 0"
      by (simp add: well0_distances well0_fields)
    from gravity_well_force[of 1 "[]" particle0 well0 "(1, 0)" "(2, 0)"] h h'
    have "vec_length (well_force 1 well0 (1, 0)) =
            \<bar>well_strength well0 * 1\<bar> * (1 - well_distance well0 (1, 0) / well_radius well0) \<and>
          vec_length (well_force 1 well0 (2, 0)) < vec_length (well_force 1 well0 (1, 0))"
      by blast
    then show ?thesis by (simp add: well0_distances well0_fields)
  qed
  show ?thesis using a b c by (simp add: well0_distances well0_fields)
qed

text \<open>
  The claim as stated fails at distance 0: the formula gives the magnitude 1 there, the
  code gives the zero force, which is less than the force at distance 1.
\<close>

theorem gravity_well_centre_counterexample:
  "well_distance well0 (0, 0) = 0 \<and> well_distance well0 (0, 0) < well_radius well0 \<and>
   well_strength well0 * (1 - well_distance well0 (0, 0) / well_radius well0) * 1 = 1 \<and>
   vec_length (well_force 1 well0 (0, 0)) = 0 \<and>
   well_distance well0 (1, 0) = 1 \<and>
   vec_length (well_force 1 well0 (1, 0)) = 3 / 4"
  by (simp add: well0_distances well0_fields)
     (simp add: well_force_def well0_def vec_defs Let_def normalized_def vec_length_x)

section \<open>The particle loop\<close>

text \<open>Whatever the collision routine does, the position at the end of the loop body is the
  integrated position.\<close>

lemma move_particle_position:
  "position (move_particle w sub_dt respect p) =
     vec_add (position p) (vec_scale (velocity (apply_vortex_force (vortices w) p)) sub_dt)"
proof -
  obtain u where u: "apply_vortex_force (vortices w) p = p\<lparr>velocity := u\<rparr>"
    using apply_vortex_force_last[of "vortices w" p] by blast
  show ?thesis
    by (simp add: move_particle_def Let_def apply_gravity_well_force_sum u)
qed

lemma move_particle_free:
  "vortices w = [] \<Longrightarrow> gravity_wells w = [] \<Longrightarrow>
   move_particle w sub_dt False p = p\<lparr>position := vec_add (position p) (vec_scale (velocity p) sub_dt)\<rparr>"
  by (simp add: move_particle_def apply_vortex_force_def apply_gravity_well_force_def Let_def)

lemma move_particle_drift:
  "vortices w = [] \<Longrightarrow> gravity_wells w = [] \<Longrightarrow> move_particle w sub_dt False p = drift sub_dt p"
  by (simp add: move_particle_free drift_def)

section \<open>Emission and the counter of emitted particles\<close>

lemma emit_particle_fields:
  "total_particles_emitted (emit_particle env em h wd i w) = total_particles_emitted w + 1"
  "max_particles (emit_particle env em h wd i w) = max_particles w"
  "particles_to_emit (emit_particle env em h wd i w) = particles_to_emit w"
  "emitters (emit_particle env em h wd i w) = emitters w"
  "vortices (emit_particle env em h wd i w) = vortices w"
  by (simp_all add: emit_particle_def Let_def)

lemma emit_while_props:
  assumes "i < length (particles_to_emit w)"
  shows "max_particles (emit_while env em h wd i w) = max_particles w \<and>
         emitters (emit_while env em h wd i w) = emitters w \<and>
         vortices (emit_while env em h wd i w) = vortices w \<and>
         length (particles_to_emit (emit_while env em h wd i w)) = length (particles_to_emit w) \<and>
         (\<forall>j. j \<noteq> i \<longrightarrow> particles_to_emit (emit_while env em h wd i w) ! j = particles_to_emit w ! j) \<and>
         total_particles_emitted w \<le> total_particles_emitted (emit_while env em h wd i w) \<and>
         particles_to_emit (emit_while env em h wd i w) ! i =
           particles_to_emit w ! i
             - real_of_int (total_particles_emitted (emit_while env em h wd i w) - total_particles_emitted w) \<and>
         (total_particles_emitted w \<le> max_particles w \<longrightarrow>
            total_particles_emitted (emit_while env em h wd i w) \<le> max_particles w) \<and>
         (total_particles_emitted (emit_while env em h wd i w) < max_particles w \<longrightarrow>
            particles_to_emit (emit_while env em h wd i w) ! i < 1) \<and>
         (0 \<le> particles_to_emit w ! i \<longrightarrow> 0 \<le> particles_to_emit (emit_while env em h wd i w) ! i) \<and>
         length (particles (emit_while env em h wd i w)) =
           length (particles w)
             + nat (total_particles_emitted (emit_while env em h wd i w) - total_particles_emitted w)"
  using assms
proof (induction env em h wd i w rule: emit_while.induct)
  case (1 env emitter height width i w)
  let ?c = "particles_to_emit w ! i \<ge> 1 \<and> total_particles_emitted w < max_particles w"
  let ?w1 = "(emit_particle env emitter height width i w)
             \<lparr>particles_to_emit := (particles_to_emit w)[i := particles_to_emit w ! i - 1]\<rparr>"
  show ?case
  proof (cases ?c)
    case True
    have len: "i < length (particles_to_emit ?w1)" using "1.prems" by simp
    note ih = "1.IH"[OF True len]
    have e: "emit_while env emitter height width i w = emit_while env emitter height width i ?w1"
      using True by (subst emit_while.simps) simp
    have f: "total_particles_emitted ?w1 = total_particles_emitted w + 1"
            "max_particles ?w1 = max_particles w" "emitters ?w1 = emitters w"
            "vortices ?w1 = vortices w"
            "particles_to_emit ?w1 = (particles_to_emit w)[i := particles_to_emit w ! i - 1]"
            "length (particles ?w1) = length (particles w) + 1"
      by (simp_all add: emit_particle_fields) (simp add: emit_particle_def Let_def)
    show ?thesis
      unfolding e using ih True "1.prems" unfolding f by (auto simp: nth_list_update)
  next
    case False
    then have e: "emit_while env emitter height width i w = w"
      by (subst emit_while.simps) auto
    show ?thesis unfolding e using False by auto
  qed
qed

lemma emit_while_stop:
  "\<not> (particles_to_emit w ! i \<ge> 1 \<and> total_particles_emitted w < max_particles w) \<Longrightarrow>
   emit_while env em h wd i w = w"
  by (subst emit_while.simps) auto

lemma counter_advances_refl: "counter_advances w w"
  by (simp add: counter_advances_def)

lemma counter_advances_trans:
  "counter_advances w w' \<Longrightarrow> counter_advances w' w'' \<Longrightarrow> counter_advances w w''"
  by (auto simp: counter_advances_def)

lemma emit_from_advances:
  assumes "emit_from env h wd sub_dt i em w = Inr w'"
  shows "counter_advances w w' \<and> vortices w' = vortices w"
proof -
  let ?w0 = "w\<lparr>particles_to_emit :=
                (particles_to_emit w)[i := particles_to_emit w ! i + emission_rate em * sub_dt]\<rparr>"
  have i: "i < length (particles_to_emit w)" and w': "w' = emit_while env em h wd i ?w0"
    using assms by (auto simp: emit_from_def split: if_splits)
  have "i < length (particles_to_emit ?w0)" using i by simp
  from emit_while_props[OF this, of env em h wd] show ?thesis
    unfolding w' counter_advances_def by simp
qed

lemma emit_all_advances:
  "emit_all env h wd sub_dt xs w = Inr w' \<Longrightarrow> counter_advances w w' \<and> vortices w' = vortices w"
proof (induction xs arbitrary: w)
  case Nil
  then show ?case by (simp add: counter_advances_refl)
next
  case (Cons x xs)
  obtain i em where x: "x = (i, em)" by (cases x)
  from Cons.prems obtain w1 where a: "emit_from env h wd sub_dt i em w = Inr w1"
    and b: "emit_all env h wd sub_dt xs w1 = Inr w'"
    by (auto simp: x split: sum.splits)
  from emit_from_advances[OF a] Cons.IH[OF b] show ?case
    by (auto intro: counter_advances_trans)
qed

lemma emit_all_total:
  "\<forall>x \<in> set xs. fst x < length (particles_to_emit w) \<Longrightarrow>
   \<exists>w'. emit_all env h wd sub_dt xs w = Inr w'"
proof (induction xs arbitrary: w)
  case Nil
  then show ?case by simp
next
  case (Cons x xs)
  obtain i em where x: "x = (i, em)" by (cases x)
  have i: "i < length (particles_to_emit w)" using Cons.prems by (simp add: x)
  then obtain w1 where a: "emit_from env h wd sub_dt i em w = Inr w1"
    by (simp add: emit_from_def)
  from emit_from_advances[OF a]
  have "length (particles_to_emit w1) = length (particles_to_emit w)"
    by (simp add: counter_advances_def)
  then have "\<forall>x \<in> set xs. fst x < length (particles_to_emit w1)" using Cons.prems by simp
  from Cons.IH[OF this] show ?case by (simp add: x a)
qed

lemma floor_frac_unique:
  fixes a :: real
  assumes "0 \<le> a - real_of_int k" "a - real_of_int k < 1"
  shows "k = \<lfloor>a\<rfloor> \<and> a - real_of_int k = frac a"
proof -
  have "\<lfloor>a\<rfloor> = k" using assms by (intro floor_unique) linarith+
  then show ?thesis by (simp add: frac_def)
qed

section \<open>The simulation step and the frame loop\<close>

lemma cull_live:
  "p \<in> set (particles (cull w)) \<Longrightarrow> current_time_step (cull w) - creation_time p < lifetime p"
  by (simp add: cull_def Let_def)

lemma update_particle_system_cull:
  "update_particle_system env dt current_mask respect w = Inr w' \<Longrightarrow> \<exists>w3. w' = cull w3"
  by (auto simp: update_particle_system_def Let_def split: sum.splits)

text \<open>The engine and the other parts of the step leave the emission state alone, so the
  counter of emitted particles only advances.\<close>

lemma space_step_fields:
  "max_particles (space_step env dt w) = max_particles w"
  "emitters (space_step env dt w) = emitters w"
  "particles_to_emit (space_step env dt w) = particles_to_emit w"
  "total_particles_emitted (space_step env dt w) = total_particles_emitted w"
  "vortices (space_step env dt w) = vortices w"
  by (simp_all add: space_step_def Let_def)

lemma sub_step_advances:
  assumes "sub_step env h wd sub_dt respect w = Inr w'"
  shows "counter_advances w w' \<and> vortices w' = vortices w"
proof -
  from assms obtain w1 where
    a: "emit_all env h wd sub_dt (enumerate 0 (emitters w)) w = Inr w1" and
    w': "w' = space_step env sub_dt (w1\<lparr>particles := map (move_particle w1 sub_dt respect) (particles w1)\<rparr>)"
    by (auto simp: sub_step_def split: sum.splits)
  from emit_all_advances[OF a] show ?thesis
    unfolding w' by (auto simp: counter_advances_def space_step_fields)
qed

lemma sub_step_total:
  assumes "length (particles_to_emit w) = length (emitters w)"
  shows "\<exists>w'. sub_step env h wd sub_dt respect w = Inr w'"
proof -
  have "\<forall>x \<in> set (enumerate 0 (emitters w)). fst x < length (particles_to_emit w)"
    using assms by (auto simp: in_set_enumerate_eq)
  from emit_all_total[OF this] obtain w1 where
    "emit_all env h wd sub_dt (enumerate 0 (emitters w)) w = Inr w1" by blast
  then show ?thesis by (simp add: sub_step_def)
qed

lemma sub_step_loop_advances:
  "sub_step_loop n env h wd sub_dt respect w = Inr w' \<Longrightarrow>
   counter_advances w w' \<and> vortices w' = vortices w"
proof (induction n arbitrary: w)
  case 0
  then show ?case by (simp add: counter_advances_refl)
next
  case (Suc n)
  from Suc.prems obtain w1 where a: "sub_step env h wd sub_dt respect w = Inr w1"
    and b: "sub_step_loop n env h wd sub_dt respect w1 = Inr w'"
    by (auto split: sum.splits)
  from sub_step_advances[OF a] Suc.IH[OF b] show ?case
    by (auto intro: counter_advances_trans)
qed

lemma sub_step_loop_total:
  "length (particles_to_emit w) = length (emitters w) \<Longrightarrow>
   \<exists>w'. sub_step_loop n env h wd sub_dt respect w = Inr w'"
proof (induction n arbitrary: w)
  case 0
  then show ?case by simp
next
  case (Suc n)
  from sub_step_total[OF Suc.prems] obtain w1 where
    a: "sub_step env h wd sub_dt respect w = Inr w1" by blast
  from sub_step_advances[OF a] Suc.prems
  have "length (particles_to_emit w1) = length (emitters w1)"
    by (simp add: counter_advances_def)
  from Suc.IH[OF this] show ?case by (simp add: a)
qed

lemma update_vortex_cases:
  "(\<exists>v'. update_vortex W H dt v = Inr v') \<or> update_vortex W H dt v = Inl AttributeError"
  by (simp add: update_vortex_def Let_def)

lemma update_vortices_loop_cases:
  "(\<exists>vs'. update_vortices_loop W H dt vs = Inr vs') \<or>
   update_vortices_loop W H dt vs = Inl AttributeError"
proof (induction vs)
  case Nil
  then show ?case by simp
next
  case (Cons v vs)
  then show ?case
    using update_vortex_cases[of W H dt v] by (auto split: sum.splits)
qed

lemma update_vortices_Inr:
  assumes "update_vortices W H dt w = Inr w'"
  shows "w' = w\<lparr>vortices := vortices w'\<rparr>"
    and "update_vortices_loop W H dt (vortices w) = Inr (vortices w')"
  using assms by (auto simp: update_vortices_def split: sum.splits)

lemma update_vortices_cases:
  "(\<exists>w'. update_vortices W H dt w = Inr w') \<or> update_vortices W H dt w = Inl AttributeError"
  using update_vortices_loop_cases[of W H dt "vortices w"]
  by (auto simp: update_vortices_def split: sum.splits)

lemma update_vortices_none:
  "vortices w = [] \<Longrightarrow> update_vortices W H dt w = Inr w"
  by (simp add: update_vortices_def)

lemma update_particle_system_advances:
  assumes "update_particle_system env dt current_mask respect w = Inr w'"
  shows "counter_advances w w' \<and>
         update_vortices_loop (real (mask_width current_mask)) (real (mask_height current_mask)) dt
           (vortices w) = Inr (vortices w')"
proof -
  let ?w1 = "if respect then update_mask_boundary env current_mask w else w"
  from assms obtain w2 w3 where
    v: "update_vortices (real (mask_width current_mask)) (real (mask_height current_mask)) dt ?w1
          = Inr w2" and
    a: "sub_step_loop sub_steps env (mask_height current_mask) (mask_width current_mask)
          (dt / real sub_steps) respect w2 = Inr w3" and w': "w' = cull w3"
    by (auto simp: update_particle_system_def Let_def split: sum.splits)
  note u = update_vortices_Inr[OF v]
  have "counter_advances w w2"
    by (subst u(1)) (simp add: counter_advances_def update_mask_boundary_def)
  moreover have "update_vortices_loop (real (mask_width current_mask))
                   (real (mask_height current_mask)) dt (vortices w) = Inr (vortices w2)"
  proof -
    have "vortices ?w1 = vortices w" by (simp add: update_mask_boundary_def)
    then show ?thesis using u(2) by simp
  qed
  moreover have "counter_advances w3 w' \<and> vortices w' = vortices w3"
    by (simp add: w' cull_def counter_advances_def Let_def)
  ultimately show ?thesis
    using sub_step_loop_advances[OF a] by (auto intro: counter_advances_trans)
qed

lemma update_particle_system_cases:
  assumes "length (particles_to_emit w) = length (emitters w)"
  shows "(\<exists>w'. update_particle_system env dt current_mask respect w = Inr w') \<or>
         update_particle_system env dt current_mask respect w = Inl AttributeError"
proof -
  let ?w1 = "if respect then update_mask_boundary env current_mask w else w"
  let ?u = "update_vortices (real (mask_width current_mask)) (real (mask_height current_mask)) dt ?w1"
  from update_vortices_cases[of "real (mask_width current_mask)" "real (mask_height current_mask)" dt ?w1]
  show ?thesis
  proof
    assume "\<exists>w2. ?u = Inr w2"
    then obtain w2 where v: "?u = Inr w2" by blast
    have "length (particles_to_emit w2) = length (emitters w2)"
      by (subst (1 2) update_vortices_Inr(1)[OF v]) (simp add: assms update_mask_boundary_def)
    from sub_step_loop_total[OF this] obtain w3 where
      "sub_step_loop sub_steps env (mask_height current_mask) (mask_width current_mask)
          (dt / real sub_steps) respect w2 = Inr w3" by blast
    then show ?thesis using v by (simp add: update_particle_system_def Let_def)
  next
    assume "?u = Inl AttributeError"
    then show ?thesis by (simp add: update_particle_system_def Let_def)
  qed
qed

lemma update_particle_system_total:
  assumes "length (particles_to_emit w) = length (emitters w)" and "vortices w = []"
  shows "\<exists>w'. update_particle_system env dt current_mask respect w = Inr w' \<and> vortices w' = []"
proof -
  let ?w1 = "if respect then update_mask_boundary env current_mask w else w"
  have n: "vortices ?w1 = []" using assms(2) by (simp add: update_mask_boundary_def)
  have v: "update_vortices (real (mask_width current_mask)) (real (mask_height current_mask)) dt ?w1
             = Inr ?w1"
    by (rule update_vortices_none[OF n])
  have "length (particles_to_emit ?w1) = length (emitters ?w1)"
    using assms(1) by (simp add: update_mask_boundary_def)
  from sub_step_loop_total[OF this] obtain w3 where
    a: "sub_step_loop sub_steps env (mask_height current_mask) (mask_width current_mask)
          (dt / real sub_steps) respect ?w1 = Inr w3" by blast
  have r: "update_particle_system env dt current_mask respect w = Inr (cull w3)"
    unfolding update_particle_system_def Let_def v using a by simp
  have "vortices (cull w3) = []"
    using sub_step_loop_advances[OF a] n by (simp add: cull_def Let_def)
  then show ?thesis using r by blast
qed

lemma process_frame_advances:
  assumes "process_frame env start end respect i frame w = Inr (out, w')"
  shows "counter_advances w w'"
proof (cases "int i < start \<or> int i \<ge> end")
  case True
  then show ?thesis using assms by (auto simp: process_frame_def counter_advances_refl)
next
  case False
  then obtain w1 where "update_particle_system env (1 / 30) frame respect w = Inr w1" and "w' = w1"
    using assms by (auto simp: process_frame_def split: sum.splits)
  then show ?thesis using update_particle_system_advances by blast
qed

lemma process_frame_cases:
  assumes "length (particles_to_emit w) = length (emitters w)"
  shows "(\<exists>out w'. process_frame env start end respect i frame w = Inr (out, w')) \<or>
         process_frame env start end respect i frame w = Inl AttributeError"
proof (cases "int i < start \<or> int i \<ge> end")
  case True
  then show ?thesis by (auto simp: process_frame_def)
next
  case False
  from update_particle_system_cases[OF assms, of env "1 / 30" frame respect]
  show ?thesis using False by (auto simp: process_frame_def)
qed

lemma process_frame_total:
  assumes "length (particles_to_emit w) = length (emitters w)" and "vortices w = []"
  shows "\<exists>out w'. process_frame env start end respect i frame w = Inr (out, w') \<and> vortices w' = []"
proof (cases "int i < start \<or> int i \<ge> end")
  case True
  then show ?thesis using assms(2) by (auto simp: process_frame_def)
next
  case False
  from update_particle_system_total[OF assms, of env "1 / 30" frame respect] obtain w1 where
    "update_particle_system env (1 / 30) frame respect w = Inr w1" "vortices w1 = []" by blast
  then show ?thesis using False by (auto simp: process_frame_def)
qed

lemma run_frames_advances:
  "run_frames env start end respect i frames w = Inr (outs, w') \<Longrightarrow> counter_advances w w'"
proof (induction frames arbitrary: i w outs)
  case Nil
  then show ?case by (simp add: counter_advances_refl)
next
  case (Cons frame frames)
  from Cons.prems obtain out w1 outs' where
    a: "process_frame env start end respect i frame w = Inr (out, w1)" and
    b: "run_frames env start end respect (Suc i) frames w1 = Inr (outs', w')"
    by (auto split: sum.splits prod.splits)
  from process_frame_advances[OF a] Cons.IH[OF b] show ?case
    by (rule counter_advances_trans)
qed

lemma run_frames_cases:
  "length (particles_to_emit w) = length (emitters w) \<Longrightarrow>
   (\<exists>outs w'. run_frames env start end respect i frames w = Inr (outs, w')) \<or>
   run_frames env start end respect i frames w = Inl AttributeError"
proof (induction frames arbitrary: i w)
  case Nil
  then show ?case by simp
next
  case (Cons frame frames)
  from process_frame_cases[OF Cons.prems, of env start "end" respect i frame]
  show ?case
  proof
    assume "\<exists>out w1. process_frame env start end respect i frame w = Inr (out, w1)"
    then obtain out w1 where
      a: "process_frame env start end respect i frame w = Inr (out, w1)" by blast
    have "length (particles_to_emit w1) = length (emitters w1)"
      using process_frame_advances[OF a] Cons.prems by (simp add: counter_advances_def)
    from Cons.IH[OF this, of "Suc i"] show ?thesis using a by auto
  next
    assume "process_frame env start end respect i frame w = Inl AttributeError"
    then show ?thesis by simp
  qed
qed

lemma run_frames_total:
  "length (particles_to_emit w) = length (emitters w) \<Longrightarrow> vortices w = [] \<Longrightarrow>
   \<exists>outs w'. run_frames env start end respect i frames w = Inr (outs, w')"
proof (induction frames arbitrary: i w)
  case Nil
  then show ?case by simp
next
  case (Cons frame frames)
  from process_frame_total[OF Cons.prems, of env start "end" respect i frame] obtain out w1 where
    a: "process_frame env start end respect i frame w = Inr (out, w1)" and n: "vortices w1 = []"
    by blast
  have "length (particles_to_emit w1) = length (emitters w1)"
    using process_frame_advances[OF a] Cons.prems(1) by (simp add: counter_advances_def)
  from Cons.IH[OF this n, of "Suc i"] show ?case using a by auto
qed

lemma process_frame_out_of_range:
  "int i < start \<or> end \<le> int i \<Longrightarrow>
   process_frame env start end respect i frame w = Inr ((frame, stack3 frame), w)"
  by (auto simp: process_frame_def)

lemma run_frames_append:
  "run_frames env start end respect i (xs @ ys) w =
     (case run_frames env start end respect i xs w of
        Inl e \<Rightarrow> Inl e
      | Inr (o1, w1) \<Rightarrow>
          (case run_frames env start end respect (i + length xs) ys w1 of
             Inl e \<Rightarrow> Inl e
           | Inr (o2, w2) \<Rightarrow> Inr (o1 @ o2, w2)))"
proof (induction xs arbitrary: i w)
  case Nil
  then show ?case by (simp split: sum.splits prod.splits)
next
  case (Cons x xs)
  show ?case by (simp add: Cons.IH split: sum.splits prod.splits)
qed

lemma run_frames_length:
  "run_frames env start end respect i0 frames w = Inr (outs, w') \<Longrightarrow> length outs = length frames"
proof (induction frames arbitrary: i0 w outs)
  case Nil
  then show ?case by simp
next
  case (Cons frame frames)
  from Cons.prems obtain out w1 outs' where
    b: "run_frames env start end respect (Suc i0) frames w1 = Inr (outs', w')" and
    o: "outs = out # outs'"
    by (auto split: sum.splits prod.splits)
  from Cons.IH[OF b] show ?case by (simp add: o)
qed

lemma run_frames_nth:
  "run_frames env start end respect i0 frames w = Inr (outs, w') \<Longrightarrow> k < length frames \<Longrightarrow>
   int (i0 + k) < start \<or> end \<le> int (i0 + k) \<Longrightarrow>
   outs ! k = (frames ! k, stack3 (frames ! k))"
proof (induction frames arbitrary: i0 w k outs)
  case Nil
  then show ?case by simp
next
  case (Cons frame frames)
  from Cons.prems(1) obtain out w1 outs' where
    a: "process_frame env start end respect i0 frame w = Inr (out, w1)" and
    b: "run_frames env start end respect (Suc i0) frames w1 = Inr (outs', w')" and
    o: "outs = out # outs'"
    by (auto split: sum.splits prod.splits)
  show ?case
  proof (cases k)
    case 0
    then show ?thesis using a Cons.prems(3) by (auto simp: o process_frame_def)
  next
    case (Suc k')
    then have "k' < length frames" "int (Suc i0 + k') < start \<or> end \<le> int (Suc i0 + k')"
      using Cons.prems(2,3) by simp_all
    from Cons.IH[OF b this] show ?thesis by (simp add: o Suc)
  qed
qed

section \<open>Setup\<close>

lemma funpow_emit_particle:
  "total_particles_emitted (((emit_particle env em h wd i) ^^ k) w) = total_particles_emitted w + int k \<and>
   max_particles (((emit_particle env em h wd i) ^^ k) w) = max_particles w \<and>
   emitters (((emit_particle env em h wd i) ^^ k) w) = emitters w \<and>
   particles_to_emit (((emit_particle env em h wd i) ^^ k) w) = particles_to_emit w"
  by (induction k) (simp_all add: emit_particle_fields)

lemma initial_burst_fields:
  "total_particles_emitted (initial_burst env h wd em w) =
     total_particles_emitted w + int (nat (initial_particle_count w em))"
  "max_particles (initial_burst env h wd em w) = max_particles w"
  "emitters (initial_burst env h wd em w) = emitters w"
  "particles_to_emit (initial_burst env h wd em w) = particles_to_emit w"
  by (simp_all add: initial_burst_def funpow_emit_particle)

lemma initial_particle_count_cong:
  "max_particles w' = max_particles w \<Longrightarrow> emitters w' = emitters w \<Longrightarrow>
   initial_particle_count w' em = initial_particle_count w em"
  by (simp add: initial_particle_count_def)

lemma fold_initial_burst_total:
  "total_particles_emitted (fold (initial_burst env h wd) ems w) =
     total_particles_emitted w + (\<Sum>em\<leftarrow>ems. int (nat (initial_particle_count w em))) \<and>
   max_particles (fold (initial_burst env h wd) ems w) = max_particles w \<and>
   emitters (fold (initial_burst env h wd) ems w) = emitters w \<and>
   particles_to_emit (fold (initial_burst env h wd) ems w) = particles_to_emit w"
proof (induction ems arbitrary: w)
  case Nil
  then show ?case by simp
next
  case (Cons em ems)
  have c: "\<And>e. initial_particle_count (initial_burst env h wd em w) e = initial_particle_count w e"
    by (rule initial_particle_count_cong) (simp_all add: initial_burst_fields)
  show ?case by (simp add: Cons.IH initial_burst_fields c)
qed

lemmas fold_initial_burst =
  fold_initial_burst_total[THEN conjunct1]
  fold_initial_burst_total[THEN conjunct2, THEN conjunct1]
  fold_initial_burst_total[THEN conjunct2, THEN conjunct2, THEN conjunct1]
  fold_initial_burst_total[THEN conjunct2, THEN conjunct2, THEN conjunct2]

lemma py_int_le: "0 \<le> r \<Longrightarrow> real_of_int (py_int r) \<le> r"
  by (simp add: py_int_def)

lemma burst_term_bound:
  assumes "0 \<le> max_particles w" "0 \<le> initial_plume em" "initial_plume em \<le> 1"
  shows "real_of_int (int (nat (initial_particle_count w em)))
           \<le> real_of_int (max_particles w) / real (length (emitters w))"
proof -
  let ?r = "real_of_int (max_particles w) * initial_plume em / real (length (emitters w))"
  have r0: "0 \<le> ?r" using assms by simp
  have "real_of_int (max_particles w) * initial_plume em \<le> real_of_int (max_particles w) * 1"
    using assms by (intro mult_left_mono) simp_all
  then have "?r \<le> real_of_int (max_particles w) / real (length (emitters w))"
    by (simp add: divide_right_mono)
  moreover have "0 \<le> py_int ?r" using r0 by (simp add: py_int_def)
  then have "real_of_int (int (nat (initial_particle_count w em))) = real_of_int (py_int ?r)"
    by (simp add: initial_particle_count_def)
  ultimately show ?thesis using py_int_le[OF r0] by linarith
qed

lemma of_int_sum_list_map:
  "real_of_int (sum_list (map f xs)) = sum_list (map (\<lambda>x. real_of_int (f x)) xs)"
  by (induction xs) simp_all

lemma sum_list_bound:
  fixes f :: "'a \<Rightarrow> real"
  shows "\<forall>x \<in> set xs. f x \<le> c \<Longrightarrow> sum_list (map f xs) \<le> real (length xs) * c"
  by (induction xs) (auto simp: algebra_simps)

lemma burst_total_bound:
  assumes "0 \<le> max_particles w"
    and "\<forall>em \<in> set (emitters w). 0 \<le> initial_plume em \<and> initial_plume em \<le> 1"
  shows "(\<Sum>em\<leftarrow>emitters w. int (nat (initial_particle_count w em))) \<le> max_particles w"
proof (cases "emitters w = []")
  case True
  then show ?thesis using assms by simp
next
  case False
  let ?n = "real (length (emitters w))"
  have n: "0 < ?n" using False by simp
  have "real_of_int (\<Sum>em\<leftarrow>emitters w. int (nat (initial_particle_count w em)))
        = (\<Sum>em\<leftarrow>emitters w. real_of_int (int (nat (initial_particle_count w em))))"
    by (rule of_int_sum_list_map)
  also have "\<dots> \<le> ?n * (real_of_int (max_particles w) / ?n)"
  proof (rule sum_list_bound)
    show "\<forall>em \<in> set (emitters w). real_of_int (int (nat (initial_particle_count w em)))
            \<le> real_of_int (max_particles w) / ?n"
      using assms burst_term_bound by blast
  qed
  also have "\<dots> = real_of_int (max_particles w)" using n by simp
  finally show ?thesis by linarith
qed

lemma burst_zero:
  assumes "max_particles w = 0"
  shows "(\<Sum>em\<leftarrow>ems. int (nat (initial_particle_count w em))) = 0"
  using assms by (induction ems) (simp_all add: initial_particle_count_def py_int_def)

lemma initialize_vortices_loop_fields:
  "total_particles_emitted (initialize_vortices_loop env wd h specs w) = total_particles_emitted w"
  "max_particles (initialize_vortices_loop env wd h specs w) = max_particles w"
  "emitters (initialize_vortices_loop env wd h specs w) = emitters w"
  "particles_to_emit (initialize_vortices_loop env wd h specs w) = particles_to_emit w"
  by (induction specs arbitrary: w) (simp_all add: Let_def)

lemma setup_fields:
  assumes "setup_particle_system env wd h cfg w = Inr w1"
  shows "max_particles w1 = particle_count cfg"
    and "emitters w1 = cfg_emitters cfg"
    and "particles_to_emit w1 = replicate (length (cfg_emitters cfg)) 0"
    and "total_particles_emitted w1 =
           (\<Sum>em\<leftarrow>cfg_emitters cfg. int (nat (initial_particle_count w1 em)))"
proof -
  show m: "max_particles w1 = particle_count cfg"
    using assms
    by (auto simp: setup_particle_system_def Let_def fold_initial_burst initialize_vortices_def
          initialize_vortices_loop_fields initialize_gravity_wells_def
          split: if_splits option.splits)
  show e: "emitters w1 = cfg_emitters cfg"
    using assms
    by (auto simp: setup_particle_system_def Let_def fold_initial_burst initialize_vortices_def
          initialize_vortices_loop_fields initialize_gravity_wells_def
          split: if_splits option.splits)
  show "particles_to_emit w1 = replicate (length (cfg_emitters cfg)) 0"
    using assms
    by (auto simp: setup_particle_system_def Let_def fold_initial_burst initialize_vortices_def
          initialize_vortices_loop_fields initialize_gravity_wells_def
          split: if_splits option.splits)
  show "total_particles_emitted w1 =
           (\<Sum>em\<leftarrow>cfg_emitters cfg. int (nat (initial_particle_count w1 em)))"
    unfolding initial_particle_count_def m e
    using assms
    by (auto simp: setup_particle_system_def Let_def fold_initial_burst initialize_vortices_def
          initialize_vortices_loop_fields initialize_gravity_wells_def initial_particle_count_def
          split: if_splits option.splits)
qed

lemma setup_lengths:
  assumes "setup_particle_system env wd h cfg w = Inr w1"
  shows "length (particles_to_emit w1) = length (emitters w1)"
  using setup_fields(2,3)[OF assms] by simp

lemma setup_no_vortices:
  "setup_particle_system env wd h cfg w = Inr w1 \<Longrightarrow> cfg_vortices cfg = None \<Longrightarrow> vortices w1 = []"
  by (auto simp: setup_particle_system_def Let_def initialize_gravity_wells_def
        split: if_splits option.splits)

section \<open>The example run\<close>

text \<open>The setup of the example configurations, and a frame from \<open>world1\<close>: the cap of one
  particle is reached, so each of the five emission checks only adds \<open>30 / 150\<close> to the
  accumulator, the particles drift, and the clock is the time step of the last sub-step.\<close>

lemma setup0: "setup_particle_system env0 1 1 cfg0 initialize = Inr world1"
  by (simp add: setup_particle_system_def cfg0_def emitter0_def initialize_def Let_def
      initial_burst_def initial_particle_count_def py_int_def emit_particle_def env0_def
      uniform_def radians_def vec_scale_def world1_def particle_e0_def)

lemma setup_zero: "setup_particle_system env0 1 1 cfg_zero initialize = Inr world_zero"
  by (simp add: setup_particle_system_def cfg_zero_def cfg0_def emitter0_def initialize_def Let_def
      initial_burst_def initial_particle_count_def py_int_def world_zero_def world1_def)

lemma setup_late: "setup_particle_system env0 1 1 cfg_late initialize = Inr world1"
  by (simp add: setup_particle_system_def cfg_late_def cfg0_def emitter0_def initialize_def Let_def
      initial_burst_def initial_particle_count_def py_int_def emit_particle_def env0_def
      uniform_def radians_def vec_scale_def world1_def particle_e0_def)

lemma plumes_ok0: "plumes_ok cfg0"
  by (simp add: plumes_ok_def cfg0_def emitter0_def)

lemma cfg0_range: "effective_start cfg0 = 0" "effective_end cfg0 1 = 1" "effective_end cfg0 4 = 4"
  "respect_mask_boundary cfg0 = None"
  by (simp_all add: cfg0_def effective_start_def effective_end_def)

lemma cfg_late_range: "effective_start cfg_late = 1" "effective_end cfg_late 2 = 2"
  "respect_mask_boundary cfg_late = None"
  by (simp_all add: cfg_late_def cfg0_def effective_start_def effective_end_def)

lemma world1_at: "world1 = world_at (1 / 2) 0 0"
  by (simp add: world_at_def world1_def particle_e0_def)

lemma sub_step_world1:
  "sub_step env0 h wd (1 / 150) False
     (world1\<lparr>particles := ps, particles_to_emit := [a], current_time_step := t\<rparr>)
   = Inr (world1\<lparr>particles := map (drift (1 / 150)) ps,
                 particles_to_emit := [a + 1 / 5], current_time_step := 1 / 150\<rparr>)"
  by (simp add: sub_step_def world1_def enumerate_eq_zip emit_from_def
      emit_while_stop emitter0_def move_particle_drift space_step_def env0_def Let_def)

lemma sub_step_loop_world1:
  "sub_step_loop (Suc n) env0 h wd (1 / 150) False
     (world1\<lparr>particles := ps, particles_to_emit := [a], current_time_step := t\<rparr>)
   = Inr (world1\<lparr>particles := map (drift (1 / 150) ^^ Suc n) ps,
                 particles_to_emit := [a + real (Suc n) / 5], current_time_step := 1 / 150\<rparr>)"
proof (induction n arbitrary: ps a t)
  case 0
  then show ?case by (simp add: sub_step_world1)
next
  case (Suc n)
  have m: "map (drift (1 / 150) ^^ Suc n) (map (drift (1 / 150)) ps)
           = map (drift (1 / 150) ^^ Suc (Suc n)) ps"
    by (simp add: funpow_swap1)
  have "sub_step_loop (Suc (Suc n)) env0 h wd (1 / 150) False
          (world1\<lparr>particles := ps, particles_to_emit := [a], current_time_step := t\<rparr>)
        = sub_step_loop (Suc n) env0 h wd (1 / 150) False
          (world1\<lparr>particles := map (drift (1 / 150)) ps,
                  particles_to_emit := [a + 1 / 5], current_time_step := 1 / 150\<rparr>)"
    by (simp add: sub_step_world1)
  also have "\<dots> = Inr (world1\<lparr>particles := map (drift (1 / 150) ^^ Suc n) (map (drift (1 / 150)) ps),
                 particles_to_emit := [a + 1 / 5 + real (Suc n) / 5],
                 current_time_step := 1 / 150\<rparr>)"
    by (rule Suc.IH)
  also have "\<dots> = Inr (world1\<lparr>particles := map (drift (1 / 150) ^^ Suc (Suc n)) ps,
                 particles_to_emit := [a + real (Suc (Suc n)) / 5],
                 current_time_step := 1 / 150\<rparr>)"
    unfolding m by (simp add: add_divide_distrib algebra_simps)
  finally show ?case .
qed

lemma update_world1:
  "update_particle_system env0 (1 / 30) m False
     (world1\<lparr>particles := ps, particles_to_emit := [a], current_time_step := t\<rparr>)
   = Inr (cull (world1\<lparr>particles := map (drift (1 / 150) ^^ 5) ps,
                       particles_to_emit := [a + 1], current_time_step := 1 / 150\<rparr>))"
proof -
  have v: "vortices (world1\<lparr>particles := ps, particles_to_emit := [a], current_time_step := t\<rparr>) = []"
    by (simp add: world1_def)
  have n: "sub_steps = Suc 4" by (simp add: sub_steps_def)
  have d: "(1 / 30 :: real) / real (Suc 4) = 1 / 150" by simp
  have f: "drift (1 / 150) ^^ Suc 4 = drift (1 / 150) ^^ 5" by (simp add: eval_nat_numeral)
  show ?thesis
    unfolding update_particle_system_def Let_def n d
    by (simp only: if_False update_vortices_none[OF v] sum.case sub_step_loop_world1 f) simp
qed

lemma drift5_e0:
  "(drift (1 / 150) ^^ 5) (particle_e0\<lparr>position := (x, 1 / 2)\<rparr>)
     = particle_e0\<lparr>position := (x + 1, 1 / 2)\<rparr>"
  by (simp add: eval_nat_numeral drift_def particle_e0_def vec_add_def vec_scale_def)

lemma e0_fields: "creation_time particle_e0 = 0" "lifetime particle_e0 = 1 / 10"
  by (simp_all add: particle_e0_def)

lemma frame_world_at:
  "update_particle_system env0 (1 / 30) m False (world_at x a t)
     = Inr (world_at (x + 1) (a + 1) (1 / 150))"
  unfolding world_at_def update_world1
  by (simp add: drift5_e0 cull_def e0_fields)

lemma update_world1_after:
  "update_particle_system env0 (1 / 30) m False world1 = Inr world1_after"
  unfolding world1_at frame_world_at world1_after_def by simp

lemma raster_at:
  "process_single_mask env0 (world_at x a t) m i =
     (map (map (\<lambda>v. 1)) m, stack3 (map (map (\<lambda>v. 1)) m))"
  by (simp add: env0_def world_at_def Let_def)

lemma process_frame_world_at:
  "start \<le> int i \<Longrightarrow> int i < end \<Longrightarrow>
   process_frame env0 start end False i [[v]] (world_at x a t)
     = Inr (([[1]], [[[1, 1, 1]]]), world_at (x + 1) (a + 1) (1 / 150))"
  by (simp add: process_frame_def frame_world_at raster_at stack3_def)

lemma process_mask_cfg0:
  "process_mask env0 [[[0]]] cfg0 initialize = Inr (([[[1]]], [[[[1, 1, 1]]]]), world1_after)"
  by (simp add: process_mask_def Let_def mask_height_def mask_width_def
      setup0[unfolded One_nat_def] cfg0_range[unfolded One_nat_def] world1_at
      process_frame_world_at world1_after_def)

lemma process_mask_cfg0_four:
  "process_mask env0 [[[0]], [[0]], [[0]], [[0]]] cfg0 initialize
     = Inr (([[[1]], [[1]], [[1]], [[1]]],
             [[[[1, 1, 1]]], [[[1, 1, 1]]], [[[1, 1, 1]]], [[[1, 1, 1]]]]), world1_after4)"
proof -
  have l: "length [[[0::real]], [[0]], [[0]], [[0]]] = 4" by simp
  show ?thesis
    unfolding process_mask_def Let_def l cfg0_range
    by (simp add: mask_height_def mask_width_def setup0[unfolded One_nat_def] world1_at
        process_frame_world_at world1_after4_def)
qed

lemma process_mask_late:
  "process_mask env0 [[[0]], [[1]]] cfg_late initialize
     = Inr (([[[0]], [[1]]], [[[[0, 0, 0]]], [[[1, 1, 1]]]]), world1_after)"
proof -
  have l: "length [[[0::real]], [[1]]] = 2" by simp
  have p0: "process_frame env0 1 2 False 0 [[0]] world1 = Inr (([[0]], stack3 [[0]]), world1)"
    by (simp add: process_frame_def)
  show ?thesis
    unfolding process_mask_def Let_def l cfg_late_range
    by (simp add: mask_height_def mask_width_def setup_late[unfolded One_nat_def] p0)
       (simp add: world1_at process_frame_world_at world1_after_def stack3_def)
qed

lemma emit_room: "emit_from env0 1 1 (1 / 150) 0 emitter0 world_room = Inr world_room_after"
  apply (simp add: emit_from_def world_room_def world1_def emitter0_def)
  apply (subst emit_while.simps)
  apply (simp add: emit_particle_def Let_def env0_def uniform_def radians_def vec_scale_def)
  apply (subst emit_while.simps)
  apply (simp add: world_room_after_def world1_def particle_e0_def emitter0_def)
  done

text \<open>A frame of width and height 2 from \<open>world_v\<close>, which has a vortex and no particle.\<close>

lemma sub_step_loop_empty:
  "emitters w = [] \<Longrightarrow> particles w = [] \<Longrightarrow> engine env = (\<lambda>dt g segs ps. ps) \<Longrightarrow>
   sub_step_loop (Suc n) env h wd sub_dt respect w = Inr (w\<lparr>current_time_step := sub_dt\<rparr>)"
proof (induction n arbitrary: w)
  case 0
  then show ?case by (simp add: sub_step_def space_step_def)
next
  case (Suc n)
  have s: "sub_step env h wd sub_dt respect w = Inr (w\<lparr>current_time_step := sub_dt\<rparr>)"
    using Suc.prems by (simp add: sub_step_def space_step_def)
  have "sub_step_loop (Suc (Suc n)) env h wd sub_dt respect w
        = sub_step_loop (Suc n) env h wd sub_dt respect (w\<lparr>current_time_step := sub_dt\<rparr>)"
    by (simp add: s)
  also have "\<dots> = Inr (w\<lparr>current_time_step := sub_dt\<rparr>\<lparr>current_time_step := sub_dt\<rparr>)"
    using Suc.prems by (intro Suc.IH) simp_all
  finally show ?case by simp
qed

lemma update_world_v:
  "update_particle_system env0 (1 / 30) [[0, 0], [0, 0]] False world_v = Inr world_v_after"
proof -
  have u: "update_vortices 2 2 (1 / 30) world_v
           = Inr (world_v\<lparr>vortices := [vortex_slow\<lparr>vortex_position := (11 / 10, 1)\<rparr>]\<rparr>)"
    by (simp add: update_vortices_def world_v_def initialize_def update_vortex_def vortex_slow_def
        vec_add_def vec_scale_def Let_def)
  have n: "sub_steps = Suc 4" by (simp add: sub_steps_def)
  have e: "engine env0 = (\<lambda>dt g segs ps. ps)" by (simp add: env0_def)
  have l: "sub_step_loop (Suc 4) env0 2 2 (1 / 30 / real (Suc 4)) False
             (world_v\<lparr>vortices := [vortex_slow\<lparr>vortex_position := (11 / 10, 1)\<rparr>]\<rparr>)
           = Inr (world_v\<lparr>vortices := [vortex_slow\<lparr>vortex_position := (11 / 10, 1)\<rparr>]\<rparr>
                    \<lparr>current_time_step := 1 / 30 / real (Suc 4)\<rparr>)"
    by (rule sub_step_loop_empty[OF _ _ e]) (simp_all add: world_v_def initialize_def)
  have w: "real (mask_width [[0, 0], [0, 0]]) = 2" "real (mask_height [[0, 0], [0, 0]]) = 2"
    "mask_width [[0, 0], [0, 0]] = 2" "mask_height [[0, 0], [0, 0]] = 2"
    by (simp_all add: mask_width_def mask_height_def)
  show ?thesis
    unfolding update_particle_system_def Let_def n
    by (simp only: w of_nat_numeral if_False u sum.case l)
       (simp add: cull_def world_v_def world_v_after_def initialize_def)
qed

lemma update_world_cross:
  "update_vortex 2 2 (1 / 30) vortex_in = Inl AttributeError"
  "update_particle_system env0 (1 / 30) [[0, 0], [0, 0]] False world_cross = Inl AttributeError"
  by (simp_all add: update_particle_system_def update_vortices_def world_cross_def initialize_def
      update_vortex_def vortex_in_def vec_add_def vec_scale_def Let_def mask_width_def
      mask_height_def)

section \<open>Particle lifetime\<close>

text \<open>Whatever the engine does, after \<^verbatim>\<open>update_particle_system\<close> the clock that the culling
  compares with is the time step of a sub-step, a fifth of the frame's time step.\<close>

lemma sub_step_clock:
  "sub_step env h wd sub_dt respect w = Inr w' \<Longrightarrow> current_time_step w' = sub_dt"
  by (auto simp: sub_step_def space_step_def split: sum.splits)

lemma sub_step_loop_clock:
  "sub_step_loop (Suc n) env h wd sub_dt respect w = Inr w' \<Longrightarrow> current_time_step w' = sub_dt"
proof (induction n arbitrary: w)
  case 0
  then show ?case by (auto simp: sub_step_clock split: sum.splits)
next
  case (Suc n)
  from Suc.prems obtain w1 where
    "sub_step_loop (Suc n) env h wd sub_dt respect w1 = Inr w'"
    by (auto split: sum.splits)
  then show ?case by (rule Suc.IH)
qed

lemma update_particle_system_clock:
  assumes "update_particle_system env dt current_mask respect w = Inr w'"
  shows "current_time_step w' = dt / 5"
proof -
  from assms obtain w2 w3 where
    a: "sub_step_loop sub_steps env (mask_height current_mask) (mask_width current_mask)
          (dt / real sub_steps) respect w2 = Inr w3" and w': "w' = cull w3"
    by (auto simp: update_particle_system_def Let_def split: sum.splits)
  have n: "sub_steps = Suc 4" by (simp add: sub_steps_def)
  from a have "current_time_step w3 = dt / real (Suc 4)"
    unfolding n by (rule sub_step_loop_clock)
  then show ?thesis by (simp add: w' cull_def Let_def)
qed

text \<open>
  \<^bold>\<open>Claim C1\<close> at a concrete input. The configuration \<open>cfg0\<close> has a particle lifetime of a
  tenth of a second and emits its one particle at the setup, at time 0. Four frames are
  twenty sub-steps of \<open>1 / 150\<close> seconds, more than the lifetime. The culling compares the
  lifetime with \<^verbatim>\<open>space.current_time_step\<close> minus the creation time, which is \<open>1 / 150\<close> after
  every frame, so the particle is still in the live collection after the fourth frame and
  it is drawn in each of the four frames.
\<close>

theorem lifetime_not_enforced:
  "process_mask env0 [[[0]], [[0]], [[0]], [[0]]] cfg0 initialize
     = Inr (([[[1]], [[1]], [[1]], [[1]]],
             [[[[1, 1, 1]]], [[[1, 1, 1]]], [[[1, 1, 1]]], [[[1, 1, 1]]]]), world1_after4) \<and>
   particles world1_after4 = [particle_e0\<lparr>position := (9 / 2, 1 / 2)\<rparr>] \<and>
   creation_time particle_e0 = 0 \<and> lifetime particle_e0 = 1 / 10 \<and>
   current_time_step world1_after4 = 1 / 150 \<and>
   lifetime particle_e0 < 4 * (5 * (1 / 150))"
  by (simp add: process_mask_cfg0_four e0_fields) (simp add: world1_after4_def world_at_def)

section \<open>The cap on emitted particles\<close>

text \<open>
  \<^bold>\<open>Claim C2\<close>, as amended. After a setup that returns, the counter of created particles is
  at least 0 and the maximum is the configured one. The frame loop over a prefix of the
  frames either returns or stops with the \<^verbatim>\<open>AttributeError\<close> of a vortex that crosses the
  border of the frame, and it returns when the setup made no vortex, as it does when none
  is configured. When it returns over a prefix, it returns over every shorter prefix; the
  counter does not decrease from the setup to the shorter prefix and from there to the
  longer one; the maximum stays the configured one; the counter never exceeds the maximum,
  provided every emitter's initial plume fraction lies between 0 and 1 and the maximum is
  not negative; and with a maximum of 0 the counter stays 0, whatever the emission rates
  and plume fractions.
\<close>

theorem emission_conservative:
  assumes "setup_particle_system env width height cfg w0 = Inr w1" and "j \<le> k"
  shows "0 \<le> total_particles_emitted w1 \<and> max_particles w1 = particle_count cfg \<and>
         (cfg_vortices cfg = None \<longrightarrow> vortices w1 = []) \<and>
         (vortices w1 = [] \<longrightarrow>
            run_frames env start end respect 0 (take k frames) w1 \<noteq> Inl AttributeError) \<and>
         (run_frames env start end respect 0 (take k frames) w1 \<noteq> Inl AttributeError \<longrightarrow>
            (\<exists>outs_j wj outs_k wk.
               run_frames env start end respect 0 (take j frames) w1 = Inr (outs_j, wj) \<and>
               run_frames env start end respect 0 (take k frames) w1 = Inr (outs_k, wk) \<and>
               total_particles_emitted w1 \<le> total_particles_emitted wj \<and>
               total_particles_emitted wj \<le> total_particles_emitted wk \<and>
               max_particles wk = particle_count cfg \<and>
               (plumes_ok cfg \<longrightarrow> total_particles_emitted wk \<le> particle_count cfg) \<and>
               (particle_count cfg = 0 \<longrightarrow> total_particles_emitted wk = 0)))"
proof (intro conjI impI)
  note f = setup_fields[OF assms(1)]
  have l1: "length (particles_to_emit w1) = length (emitters w1)"
    by (rule setup_lengths[OF assms(1)])
  show "0 \<le> total_particles_emitted w1"
    unfolding f(4) by (rule sum_list_nonneg) auto
  show "max_particles w1 = particle_count cfg" by (rule f(1))
  show "vortices w1 = []" if "cfg_vortices cfg = None"
    using assms(1) that by (rule setup_no_vortices)
  show "run_frames env start end respect 0 (take k frames) w1 \<noteq> Inl AttributeError"
    if "vortices w1 = []"
    using run_frames_total[OF l1 that, of env start "end" respect 0 "take k frames"] by auto
  show "\<exists>outs_j wj outs_k wk.
          run_frames env start end respect 0 (take j frames) w1 = Inr (outs_j, wj) \<and>
          run_frames env start end respect 0 (take k frames) w1 = Inr (outs_k, wk) \<and>
          total_particles_emitted w1 \<le> total_particles_emitted wj \<and>
          total_particles_emitted wj \<le> total_particles_emitted wk \<and>
          max_particles wk = particle_count cfg \<and>
          (plumes_ok cfg \<longrightarrow> total_particles_emitted wk \<le> particle_count cfg) \<and>
          (particle_count cfg = 0 \<longrightarrow> total_particles_emitted wk = 0)"
    if ne: "run_frames env start end respect 0 (take k frames) w1 \<noteq> Inl AttributeError"
  proof -
    from run_frames_cases[OF l1, of env start "end" respect 0 "take k frames"] ne
    obtain outs_k wk where
      rk: "run_frames env start end respect 0 (take k frames) w1 = Inr (outs_k, wk)" by blast
    let ?rest = "drop j (take k frames)"
    have split: "take k frames = take j frames @ ?rest"
    proof -
      have "take j (take k frames) = take j frames" using assms(2) by (simp add: min_def)
      then show ?thesis using append_take_drop_id[of j "take k frames"] by simp
    qed
    have "run_frames env start end respect 0 (take j frames @ ?rest) w1 = Inr (outs_k, wk)"
      using rk split by simp
    then obtain outs_j wj outs_r where
      rj: "run_frames env start end respect 0 (take j frames) w1 = Inr (outs_j, wj)" and
      rr: "run_frames env start end respect (0 + length (take j frames)) ?rest wj
             = Inr (outs_r, wk)"
      unfolding run_frames_append by (auto split: sum.splits prod.splits)
    have cj: "counter_advances w1 wj" by (rule run_frames_advances[OF rj])
    have ck: "counter_advances wj wk" by (rule run_frames_advances[OF rr])
    have c1k: "counter_advances w1 wk" by (rule counter_advances_trans[OF cj ck])
    have bound: "plumes_ok cfg \<Longrightarrow> total_particles_emitted wk \<le> particle_count cfg"
    proof -
      assume p: "plumes_ok cfg"
      have "(\<Sum>em\<leftarrow>emitters w1. int (nat (initial_particle_count w1 em))) \<le> max_particles w1"
        using p by (intro burst_total_bound) (auto simp: plumes_ok_def f list_all_iff)
      then have "total_particles_emitted w1 \<le> max_particles w1" by (simp add: f)
      then show ?thesis using c1k by (simp add: counter_advances_def f)
    qed
    have zero: "particle_count cfg = 0 \<Longrightarrow> total_particles_emitted wk = 0"
    proof -
      assume z: "particle_count cfg = 0"
      then have "total_particles_emitted w1 = 0"
        using burst_zero[of w1 "cfg_emitters cfg"] by (simp add: f)
      then show ?thesis using c1k z by (simp add: counter_advances_def f)
    qed
    show ?thesis
      using rj rk cj ck c1k bound zero by (auto simp: counter_advances_def f)
  qed
qed

text \<open>The run of \<open>cfg0\<close>, and the run of \<open>cfg_zero\<close>, whose maximum is 0; neither configures a
  vortex.\<close>

theorem emission_conservative_witness:
  "setup_particle_system env0 1 1 cfg0 initialize = Inr world1 \<and> (0::nat) \<le> 1 \<and> plumes_ok cfg0 \<and>
   cfg_vortices cfg0 = None \<and> vortices world1 = [] \<and>
   run_frames env0 0 1 False 0 (take 1 [[[0]]]) world1 \<noteq> Inl AttributeError \<and>
   (\<exists>outs_j wj outs_k wk.
      run_frames env0 0 1 False 0 (take 0 [[[0]]]) world1 = Inr (outs_j, wj) \<and>
      run_frames env0 0 1 False 0 (take 1 [[[0]]]) world1 = Inr (outs_k, wk) \<and>
      total_particles_emitted wj \<le> total_particles_emitted wk \<and>
      total_particles_emitted wk \<le> particle_count cfg0) \<and>
   setup_particle_system env0 1 1 cfg_zero initialize = Inr world_zero \<and>
   particle_count cfg_zero = 0 \<and> cfg_vortices cfg_zero = None \<and>
   (\<exists>outs_k wk.
      run_frames env0 0 1 False 0 (take 1 [[[0]]]) world_zero = Inr (outs_k, wk) \<and>
      total_particles_emitted wk = 0)"
proof -
  have le: "(0::nat) \<le> 1" by simp
  have z: "particle_count cfg_zero = 0" by (simp add: cfg_zero_def)
  have n: "cfg_vortices cfg0 = None" by (simp add: cfg0_def)
  have nz: "cfg_vortices cfg_zero = None" by (simp add: cfg_zero_def cfg0_def)
  note t = emission_conservative[OF setup0 le, of 0 1 False "[[[0]]]"]
  note t3 = t[THEN conjunct2, THEN conjunct2]
  note v = t3[THEN conjunct1, THEN mp, OF n]
  note ne = t3[THEN conjunct2, THEN conjunct1, THEN mp, OF v]
  from t3[THEN conjunct2, THEN conjunct2, THEN mp, OF ne]
  obtain outs_j wj outs_k wk where
    r: "run_frames env0 0 1 False 0 (take 0 [[[0]]]) world1 = Inr (outs_j, wj)"
       "run_frames env0 0 1 False 0 (take 1 [[[0]]]) world1 = Inr (outs_k, wk)"
       "total_particles_emitted wj \<le> total_particles_emitted wk"
       "plumes_ok cfg0 \<longrightarrow> total_particles_emitted wk \<le> particle_count cfg0"
    by (elim exE conjE)
  have a: "\<exists>outs_j wj outs_k wk.
      run_frames env0 0 1 False 0 (take 0 [[[0]]]) world1 = Inr (outs_j, wj) \<and>
      run_frames env0 0 1 False 0 (take 1 [[[0]]]) world1 = Inr (outs_k, wk) \<and>
      total_particles_emitted wj \<le> total_particles_emitted wk \<and>
      total_particles_emitted wk \<le> particle_count cfg0"
    using r(1,2,3) r(4)[THEN mp, OF plumes_ok0] by blast
  note t' = emission_conservative[OF setup_zero le, of 0 1 False "[[[0]]]"]
  note t3' = t'[THEN conjunct2, THEN conjunct2]
  note v' = t3'[THEN conjunct1, THEN mp, OF nz]
  note ne' = t3'[THEN conjunct2, THEN conjunct1, THEN mp, OF v']
  from t3'[THEN conjunct2, THEN conjunct2, THEN mp, OF ne']
  obtain outs_k' wk' where
    r': "run_frames env0 0 1 False 0 (take 1 [[[0]]]) world_zero = Inr (outs_k', wk')"
        "particle_count cfg_zero = 0 \<longrightarrow> total_particles_emitted wk' = 0"
    by (elim exE conjE)
  have b: "\<exists>outs_k wk.
      run_frames env0 0 1 False 0 (take 1 [[[0]]]) world_zero = Inr (outs_k, wk) \<and>
      total_particles_emitted wk = 0"
    using r'(1) r'(2)[THEN mp, OF z] by blast
  show ?thesis by (intro conjI setup0 le plumes_ok0 n v ne a setup_zero z nz b)
qed

text \<open>
  The claim as stated fails for an initial plume of 2: the setup emits two particles for a
  maximum of one, since the initial plume is emitted without looking at the maximum.
\<close>

theorem plume_over_counterexample:
  "setup_particle_system env0 1 1 cfg_over initialize = Inr world_over \<and>
   initial_plume emitter_over = 2 \<and>
   total_particles_emitted world_over = 2 \<and> max_particles world_over = 1"
  by (simp add: setup_particle_system_def cfg_over_def cfg0_def emitter_over_def emitter0_def
      initialize_def Let_def initial_burst_def initial_particle_count_def py_int_def
      emit_particle_def env0_def uniform_def radians_def vec_scale_def world_over_def world1_def
      particle_e0_def eval_nat_numeral)

section \<open>The emission accumulator\<close>

text \<open>
  \<^bold>\<open>Claim C4\<close>, as amended. The setup sets every accumulator to 0, and only the emission
  check changes the accumulators. A check of emitter \<open>i\<close> that returns adds \<open>rate * sub_dt\<close>
  to the accumulator, giving \<open>a\<close>, emits \<open>k \<ge> 0\<close> particles and leaves \<open>a - k\<close>; the other
  accumulators are unchanged. If the counter is below the maximum after the check, the
  accumulator is below 1; if \<open>a \<ge> 0\<close>, it is at least 0; with both, \<open>k\<close> is the integer
  part of \<open>a\<close> and the accumulator is its fractional part. When the cap stops the emission,
  nothing is said: the accumulator keeps the whole part that was not emitted.
\<close>

theorem accumulator_after_check:
  "(setup_particle_system env width height cfg w0 = Inr w1 \<longrightarrow>
      particles_to_emit w1 = replicate (length (cfg_emitters cfg)) 0) \<and>
   (emit_from env height width sub_dt i emitter w = Inr w' \<longrightarrow>
      (let a = particles_to_emit w ! i + emission_rate emitter * sub_dt;
           k = total_particles_emitted w' - total_particles_emitted w
       in 0 \<le> k \<and>
          length (particles w') = length (particles w) + nat k \<and>
          particles_to_emit w' ! i = a - real_of_int k \<and>
          (total_particles_emitted w' < max_particles w' \<longrightarrow> particles_to_emit w' ! i < 1) \<and>
          (0 \<le> a \<longrightarrow> 0 \<le> particles_to_emit w' ! i) \<and>
          (0 \<le> a \<and> total_particles_emitted w' < max_particles w' \<longrightarrow>
             k = \<lfloor>a\<rfloor> \<and> particles_to_emit w' ! i = frac a) \<and>
          (\<forall>j. j \<noteq> i \<longrightarrow> particles_to_emit w' ! j = particles_to_emit w ! j))) \<and>
   particles_to_emit (w\<lparr>particles := ps\<rparr>) = particles_to_emit w \<and>
   particles_to_emit (space_step env dt w) = particles_to_emit w \<and>
   particles_to_emit (cull w) = particles_to_emit w \<and>
   (update_vortices W H dt w = Inr w2 \<longrightarrow> particles_to_emit w2 = particles_to_emit w) \<and>
   particles_to_emit (update_mask_boundary env current_mask w) = particles_to_emit w"
proof (intro conjI impI)
  assume "setup_particle_system env width height cfg w0 = Inr w1"
  then show "particles_to_emit w1 = replicate (length (cfg_emitters cfg)) 0"
    by (rule setup_fields(3))
next
  assume a: "emit_from env height width sub_dt i emitter w = Inr w'"
  let ?w0 = "w\<lparr>particles_to_emit :=
                (particles_to_emit w)[i := particles_to_emit w ! i + emission_rate emitter * sub_dt]\<rparr>"
  let ?a = "particles_to_emit w ! i + emission_rate emitter * sub_dt"
  let ?k = "total_particles_emitted w' - total_particles_emitted w"
  have i: "i < length (particles_to_emit w)" and w': "w' = emit_while env emitter height width i ?w0"
    using a by (auto simp: emit_from_def split: if_splits)
  have i0: "i < length (particles_to_emit ?w0)" using i by simp
  note p = emit_while_props[OF i0, of env emitter height width, folded w']
  have acc0: "particles_to_emit ?w0 ! i = ?a" using i by simp
  have mw0: "max_particles ?w0 = max_particles w" "total_particles_emitted ?w0 = total_particles_emitted w"
    "particles ?w0 = particles w"
    by simp_all
  have m: "max_particles w' = max_particles w" using p mw0 by simp
  have k: "0 \<le> ?k" using p mw0 by simp
  have len: "length (particles w') = length (particles w) + nat ?k" using p mw0 by simp
  have eq0: "particles_to_emit w' ! i = particles_to_emit ?w0 ! i
               - real_of_int (total_particles_emitted w' - total_particles_emitted ?w0)"
    using p by blast
  have eq: "particles_to_emit w' ! i = ?a - real_of_int ?k"
    using eq0 unfolding acc0 mw0 .
  have lt0: "total_particles_emitted w' < max_particles ?w0 \<longrightarrow> particles_to_emit w' ! i < 1"
    using p by blast
  have lt: "total_particles_emitted w' < max_particles w' \<longrightarrow> particles_to_emit w' ! i < 1"
    unfolding m using lt0 unfolding mw0 .
  have ge0: "0 \<le> particles_to_emit ?w0 ! i \<longrightarrow> 0 \<le> particles_to_emit w' ! i"
    using p by blast
  have ge: "0 \<le> ?a \<longrightarrow> 0 \<le> particles_to_emit w' ! i"
    using ge0 unfolding acc0 .
  have fl: "0 \<le> ?a \<and> total_particles_emitted w' < max_particles w' \<longrightarrow>
             ?k = \<lfloor>?a\<rfloor> \<and> particles_to_emit w' ! i = frac ?a"
  proof
    assume h: "0 \<le> ?a \<and> total_particles_emitted w' < max_particles w'"
    then have "0 \<le> ?a - real_of_int ?k" "?a - real_of_int ?k < 1"
      using ge lt eq by simp_all
    from floor_frac_unique[OF this] show "?k = \<lfloor>?a\<rfloor> \<and> particles_to_emit w' ! i = frac ?a"
      using eq by simp
  qed
  have others0: "\<forall>j. j \<noteq> i \<longrightarrow> particles_to_emit w' ! j = particles_to_emit ?w0 ! j"
    using p by blast
  have others: "\<forall>j. j \<noteq> i \<longrightarrow> particles_to_emit w' ! j = particles_to_emit w ! j"
    using others0 by simp
  show "let a = particles_to_emit w ! i + emission_rate emitter * sub_dt;
            k = total_particles_emitted w' - total_particles_emitted w
        in 0 \<le> k \<and>
          length (particles w') = length (particles w) + nat k \<and>
          particles_to_emit w' ! i = a - real_of_int k \<and>
          (total_particles_emitted w' < max_particles w' \<longrightarrow> particles_to_emit w' ! i < 1) \<and>
          (0 \<le> a \<longrightarrow> 0 \<le> particles_to_emit w' ! i) \<and>
          (0 \<le> a \<and> total_particles_emitted w' < max_particles w' \<longrightarrow>
             k = \<lfloor>a\<rfloor> \<and> particles_to_emit w' ! i = frac a) \<and>
          (\<forall>j. j \<noteq> i \<longrightarrow> particles_to_emit w' ! j = particles_to_emit w ! j)"
    unfolding Let_def using k len eq lt ge fl others by blast
next
  assume "update_vortices W H dt w = Inr w2"
  then show "particles_to_emit w2 = particles_to_emit w"
    by (auto simp: update_vortices_def split: sum.splits)
qed (simp_all add: space_step_def cull_def update_mask_boundary_def Let_def)

text \<open>From an accumulator of 0.9 and with room below the cap, the check emits one particle
  and leaves 0.1.\<close>

theorem accumulator_after_check_witness:
  "setup_particle_system env0 1 1 cfg0 initialize = Inr world1 \<and>
   particles_to_emit world1 = replicate (length (cfg_emitters cfg0)) 0 \<and>
   update_vortices 1 1 (1 / 30) world_room = Inr world_room \<and>
   particles_to_emit world_room = particles_to_emit world_room \<and>
   emit_from env0 1 1 (1 / 150) 0 emitter0 world_room = Inr world_room_after \<and>
   (0::real) \<le> 11 / 10 \<and>
   total_particles_emitted world_room_after < max_particles world_room_after \<and>
   total_particles_emitted world_room_after - total_particles_emitted world_room = \<lfloor>11 / 10 :: real\<rfloor> \<and>
   particles_to_emit world_room_after ! 0 = frac (11 / 10) \<and>
   particles_to_emit world_room_after ! 0 < 1"
proof -
  have a: "particles_to_emit world_room ! 0 + emission_rate emitter0 * (1 / 150) = 11 / 10"
    by (simp add: world_room_def emitter0_def)
  have lt: "total_particles_emitted world_room_after < max_particles world_room_after"
    by (simp add: world_room_after_def)
  have g: "(0::real) \<le> 11 / 10" by simp
  have u: "update_vortices 1 1 (1 / 30) world_room = Inr world_room"
    by (rule update_vortices_none) (simp add: world_room_def world1_def)
  note t = accumulator_after_check[where env = env0 and width = 1 and height = 1 and cfg = cfg0
             and ?w0.0 = initialize and ?w1.0 = world1 and sub_dt = "1 / 150" and i = 0
             and emitter = emitter0 and w = world_room and w' = world_room_after
             and W = 1 and H = 1 and dt = "1 / 30" and ?w2.0 = world_room,
             unfolded Let_def a]
  note s = t[THEN conjunct1, THEN mp, OF setup0]
  note c = t[THEN conjunct2, THEN conjunct1, THEN mp, OF emit_room]
  note v = t[THEN conjunct2, THEN conjunct2, THEN conjunct2, THEN conjunct2, THEN conjunct2,
             THEN conjunct1, THEN mp, OF u]
  note c4 = c[THEN conjunct2, THEN conjunct2, THEN conjunct2, THEN conjunct1, THEN mp, OF lt]
  note c6 = c[THEN conjunct2, THEN conjunct2, THEN conjunct2, THEN conjunct2, THEN conjunct2,
              THEN conjunct1, THEN mp, OF conjI[OF g lt]]
  show ?thesis
    by (intro conjI setup0 s u v emit_room g lt c6[THEN conjunct1] c6[THEN conjunct2] c4)
qed

text \<open>
  The claim as stated fails once the cap is reached: in \<open>world1\<close> the counter equals the
  maximum, and the check that takes the accumulator from 0.8 to 1 emits nothing and leaves 1.
\<close>

theorem accumulator_cap_counterexample:
  "emit_from env0 1 1 (1 / 150) 0 emitter0 (world1\<lparr>particles_to_emit := [4 / 5]\<rparr>)
     = Inr (world1\<lparr>particles_to_emit := [1]\<rparr>) \<and>
   total_particles_emitted world1 = max_particles world1 \<and>
   \<not> particles_to_emit (world1\<lparr>particles_to_emit := [1]\<rparr>) ! 0 < 1"
  by (simp add: emit_from_def emit_while_stop world1_def emitter0_def)

section \<open>Vortex drift\<close>

lemma update_vortex_Inr:
  assumes "update_vortex W H dt v = Inr v'"
  shows "v' = v\<lparr>vortex_position := vec_add (vortex_position v) (vec_scale (vortex_velocity v) dt)\<rparr>"
  using assms by (auto simp: update_vortex_def Let_def split: if_splits)

lemma update_vortex_inside:
  assumes "0 \<le> fst (vec_add (vortex_position v) (vec_scale (vortex_velocity v) dt))"
    and "fst (vec_add (vortex_position v) (vec_scale (vortex_velocity v) dt)) \<le> W"
    and "0 \<le> snd (vec_add (vortex_position v) (vec_scale (vortex_velocity v) dt))"
    and "snd (vec_add (vortex_position v) (vec_scale (vortex_velocity v) dt)) \<le> H"
  shows "update_vortex W H dt v
           = Inr (v\<lparr>vortex_position := vec_add (vortex_position v) (vec_scale (vortex_velocity v) dt)\<rparr>)"
  using assms by (simp add: update_vortex_def Let_def not_less[symmetric])

lemma update_vortices_loop_Inr:
  "update_vortices_loop W H dt vs = Inr vs' \<Longrightarrow>
   vs' = map (\<lambda>v. v\<lparr>vortex_position :=
                      vec_add (vortex_position v) (vec_scale (vortex_velocity v) dt)\<rparr>) vs"
proof (induction vs arbitrary: vs')
  case Nil
  then show ?case by simp
next
  case (Cons v vs)
  from Cons.prems obtain v' rest' where
    a: "update_vortex W H dt v = Inr v'" and
    b: "update_vortices_loop W H dt vs = Inr rest'" and c: "vs' = v' # rest'"
    by (auto split: sum.splits)
  show ?case using update_vortex_Inr[OF a] Cons.IH[OF b] by (simp add: c)
qed

lemma update_vortices_loop_inside:
  "(\<forall>v\<in>set vs. 0 \<le> fst (vec_add (vortex_position v) (vec_scale (vortex_velocity v) dt)) \<and>
               fst (vec_add (vortex_position v) (vec_scale (vortex_velocity v) dt)) \<le> W \<and>
               0 \<le> snd (vec_add (vortex_position v) (vec_scale (vortex_velocity v) dt)) \<and>
               snd (vec_add (vortex_position v) (vec_scale (vortex_velocity v) dt)) \<le> H) \<Longrightarrow>
   \<exists>vs'. update_vortices_loop W H dt vs = Inr vs'"
proof (induction vs)
  case Nil
  then show ?case by simp
next
  case (Cons v vs)
  then obtain rest' where b: "update_vortices_loop W H dt vs = Inr rest'" by auto
  have "update_vortex W H dt v
          = Inr (v\<lparr>vortex_position := vec_add (vortex_position v) (vec_scale (vortex_velocity v) dt)\<rparr>)"
    using Cons.prems by (intro update_vortex_inside) simp_all
  then show ?case by (simp add: b)
qed

lemma update_particle_system_returns:
  assumes "length (particles_to_emit w) = length (emitters w)"
    and "update_vortices_loop (real (mask_width current_mask)) (real (mask_height current_mask)) dt
           (vortices w) = Inr vs"
  shows "\<exists>w'. update_particle_system env dt current_mask respect w = Inr w'"
proof -
  let ?w1 = "if respect then update_mask_boundary env current_mask w else w"
  have "vortices ?w1 = vortices w" by (simp add: update_mask_boundary_def)
  then have v: "update_vortices (real (mask_width current_mask)) (real (mask_height current_mask)) dt ?w1
               = Inr (?w1\<lparr>vortices := vs\<rparr>)"
    using assms(2) by (simp add: update_vortices_def)
  have "length (particles_to_emit (?w1\<lparr>vortices := vs\<rparr>)) = length (emitters (?w1\<lparr>vortices := vs\<rparr>))"
    using assms(1) by (simp add: update_mask_boundary_def)
  from sub_step_loop_total[OF this] obtain w3 where
    "sub_step_loop sub_steps env (mask_height current_mask) (mask_width current_mask)
       (dt / real sub_steps) respect (?w1\<lparr>vortices := vs\<rparr>) = Inr w3" by blast
  then have "update_particle_system env dt current_mask respect w = Inr (cull w3)"
    unfolding update_particle_system_def Let_def v by simp
  then show ?thesis by blast
qed

text \<open>
  \<^bold>\<open>Claim C8\<close>, as amended. \<^verbatim>\<open>update_vortices\<close> runs once per frame, before the sub-steps and
  with the time step of the frame: a vortex whose position plus velocity times \<open>dt\<close> lies
  inside the frame is moved there and keeps its velocity; when every vortex is in that
  case \<^verbatim>\<open>update_particle_system\<close> returns; whenever it returns, every vortex has advanced by
  its velocity times \<open>dt\<close>, once; and a sub-step does not move a vortex. Nothing is said of
  a vortex whose advanced position lies outside the frame.
\<close>

theorem vortex_drift:
  "(0 \<le> fst (vec_add (vortex_position v) (vec_scale (vortex_velocity v) dt)) \<and>
    fst (vec_add (vortex_position v) (vec_scale (vortex_velocity v) dt)) \<le> W \<and>
    0 \<le> snd (vec_add (vortex_position v) (vec_scale (vortex_velocity v) dt)) \<and>
    snd (vec_add (vortex_position v) (vec_scale (vortex_velocity v) dt)) \<le> H \<longrightarrow>
      update_vortex W H dt v
        = Inr (v\<lparr>vortex_position :=
                   vec_add (vortex_position v) (vec_scale (vortex_velocity v) dt)\<rparr>)) \<and>
   (length (particles_to_emit w) = length (emitters w) \<and>
    (\<forall>u\<in>set (vortices w).
        0 \<le> fst (vec_add (vortex_position u) (vec_scale (vortex_velocity u) dt)) \<and>
        fst (vec_add (vortex_position u) (vec_scale (vortex_velocity u) dt))
          \<le> real (mask_width current_mask) \<and>
        0 \<le> snd (vec_add (vortex_position u) (vec_scale (vortex_velocity u) dt)) \<and>
        snd (vec_add (vortex_position u) (vec_scale (vortex_velocity u) dt))
          \<le> real (mask_height current_mask)) \<longrightarrow>
      (\<exists>w1. update_particle_system env dt current_mask respect w = Inr w1)) \<and>
   (update_particle_system env dt current_mask respect w = Inr w' \<longrightarrow>
      vortices w' = map (\<lambda>u. u\<lparr>vortex_position :=
                                vec_add (vortex_position u) (vec_scale (vortex_velocity u) dt)\<rparr>)
                        (vortices w)) \<and>
   (sub_step env h wd sub_dt respect w = Inr ws \<longrightarrow> vortices ws = vortices w)"
proof (intro conjI impI)
  assume "0 \<le> fst (vec_add (vortex_position v) (vec_scale (vortex_velocity v) dt)) \<and>
    fst (vec_add (vortex_position v) (vec_scale (vortex_velocity v) dt)) \<le> W \<and>
    0 \<le> snd (vec_add (vortex_position v) (vec_scale (vortex_velocity v) dt)) \<and>
    snd (vec_add (vortex_position v) (vec_scale (vortex_velocity v) dt)) \<le> H"
  then show "update_vortex W H dt v
        = Inr (v\<lparr>vortex_position :=
                   vec_add (vortex_position v) (vec_scale (vortex_velocity v) dt)\<rparr>)"
    by (intro update_vortex_inside) simp_all
next
  assume a: "length (particles_to_emit w) = length (emitters w) \<and>
    (\<forall>u\<in>set (vortices w).
        0 \<le> fst (vec_add (vortex_position u) (vec_scale (vortex_velocity u) dt)) \<and>
        fst (vec_add (vortex_position u) (vec_scale (vortex_velocity u) dt))
          \<le> real (mask_width current_mask) \<and>
        0 \<le> snd (vec_add (vortex_position u) (vec_scale (vortex_velocity u) dt)) \<and>
        snd (vec_add (vortex_position u) (vec_scale (vortex_velocity u) dt))
          \<le> real (mask_height current_mask))"
  from update_vortices_loop_inside[OF a[THEN conjunct2]] obtain vs where
    "update_vortices_loop (real (mask_width current_mask)) (real (mask_height current_mask)) dt
       (vortices w) = Inr vs" by blast
  from update_particle_system_returns[OF a[THEN conjunct1] this]
  show "\<exists>w1. update_particle_system env dt current_mask respect w = Inr w1" .
next
  assume "update_particle_system env dt current_mask respect w = Inr w'"
  from update_particle_system_advances[OF this, THEN conjunct2]
  show "vortices w' = map (\<lambda>u. u\<lparr>vortex_position :=
                                vec_add (vortex_position u) (vec_scale (vortex_velocity u) dt)\<rparr>)
                        (vortices w)"
    by (rule update_vortices_loop_Inr)
next
  assume "sub_step env h wd sub_dt respect w = Inr ws"
  from sub_step_advances[OF this] show "vortices ws = vortices w" by simp
qed

text \<open>A frame of width and height 2 from \<open>world_v\<close>: its vortex goes from \<open>(1, 1)\<close> to
  \<open>(11 / 10, 1)\<close>, and a sub-step leaves it at \<open>(1, 1)\<close>.\<close>

theorem vortex_drift_witness:
  "(0::real) \<le> 11 / 10 \<and> (11 / 10 :: real) \<le> 2 \<and> (0::real) \<le> 1 \<and> (1::real) \<le> 2 \<and>
   update_vortex 2 2 (1 / 30) vortex_slow = Inr (vortex_slow\<lparr>vortex_position := (11 / 10, 1)\<rparr>) \<and>
   length (particles_to_emit world_v) = length (emitters world_v) \<and>
   vortices world_v = [vortex_slow] \<and>
   update_particle_system env0 (1 / 30) [[0, 0], [0, 0]] False world_v = Inr world_v_after \<and>
   vortices world_v_after = [vortex_slow\<lparr>vortex_position := (11 / 10, 1)\<rparr>] \<and>
   sub_step env0 2 2 (1 / 150) False world_v = Inr (world_v\<lparr>current_time_step := 1 / 150\<rparr>) \<and>
   vortices (world_v\<lparr>current_time_step := 1 / 150\<rparr>) = vortices world_v"
proof -
  have p: "vec_add (vortex_position vortex_slow) (vec_scale (vortex_velocity vortex_slow) (1 / 30))
             = (11 / 10, 1)"
    by (simp add: vortex_slow_def vec_add_def vec_scale_def)
  have vs: "vortices world_v = [vortex_slow]" by (simp add: world_v_def)
  have mw: "real (mask_width [[0, 0], [0, 0]]) = 2" "real (mask_height [[0, 0], [0, 0]]) = 2"
    by (simp_all add: mask_width_def mask_height_def)
  have l: "length (particles_to_emit world_v) = length (emitters world_v)"
    by (simp add: world_v_def initialize_def)
  have s: "sub_step env0 2 2 (1 / 150) False world_v = Inr (world_v\<lparr>current_time_step := 1 / 150\<rparr>)"
    by (simp add: sub_step_def space_step_def env0_def world_v_def initialize_def)
  have i: "(0::real) \<le> 11 / 10 \<and> (11 / 10 :: real) \<le> 2 \<and> (0::real) \<le> 1 \<and> (1::real) \<le> 2"
    by simp
  note t = vortex_drift[where v = vortex_slow and dt = "1 / 30" and W = 2 and H = 2
             and w = world_v and current_mask = "[[0, 0], [0, 0]]" and env = env0
             and respect = False and w' = world_v_after and h = 2 and wd = 2
             and sub_dt = "1 / 150" and ws = "world_v\<lparr>current_time_step := 1 / 150\<rparr>",
             unfolded vs mw list.set ball_simps p fst_conv snd_conv list.map]
  note t1 = t[THEN conjunct1, THEN mp, OF i]
  note t2 = t[THEN conjunct2, THEN conjunct1, THEN mp, OF conjI[OF l conjI[OF i TrueI]]]
  note t3 = t[THEN conjunct2, THEN conjunct2, THEN conjunct1, THEN mp, OF update_world_v]
  note t4 = t[THEN conjunct2, THEN conjunct2, THEN conjunct2, THEN mp, OF s]
  show ?thesis
    by (intro conjI i[THEN conjunct1] i[THEN conjunct2, THEN conjunct1]
        i[THEN conjunct2, THEN conjunct2, THEN conjunct1]
        i[THEN conjunct2, THEN conjunct2, THEN conjunct2] t1 l vs update_world_v t3
        s t4[folded vs])
qed

text \<open>
  The claim as stated fails: the vortex of \<open>world_v\<close> has the velocity \<open>(3, 0)\<close>, a sub-step
  leaves it at \<open>(1, 1)\<close>, and the five sub-steps of a frame of a thirtieth of a second move it
  by \<open>3 / 30\<close> in all.
\<close>

theorem vortex_drift_counterexample:
  "vortices world_v = [vortex_slow] \<and>
   vortex_position vortex_slow = (1, 1) \<and> vortex_velocity vortex_slow = (3, 0) \<and>
   sub_step env0 2 2 (1 / 150) False world_v = Inr (world_v\<lparr>current_time_step := 1 / 150\<rparr>) \<and>
   vortices (world_v\<lparr>current_time_step := 1 / 150\<rparr>) = [vortex_slow] \<and>
   update_particle_system env0 (1 / 30) [[0, 0], [0, 0]] False world_v = Inr world_v_after \<and>
   vortices world_v_after = [vortex_slow\<lparr>vortex_position := (11 / 10, 1)\<rparr>]"
  by (simp add: update_world_v)
     (simp add: vortex_slow_def world_v_def world_v_after_def initialize_def sub_step_def
      space_step_def env0_def)

section \<open>Frames out of range\<close>

text \<open>
  \<^bold>\<open>Claim C9\<close>, as amended. The range that \<^verbatim>\<open>process_mask\<close> compares a frame index with
  starts at \<^verbatim>\<open>start_frame\<close> (0 when absent) and ends at \<^verbatim>\<open>end_frame\<close> when that is positive,
  and at the number of frames otherwise. For a frame index outside that range, the loop
  body returns the input mask, its three-channel duplicate and the unchanged world; the
  outputs of \<^verbatim>\<open>process_mask\<close> at that index are the input mask and its duplicate; and the
  frame loop over the frames up to and including that one ends in the world it had before
  that frame.
\<close>

theorem out_of_range_passthrough:
  "effective_start cfg = (case start_frame cfg of None \<Rightarrow> 0 | Some s \<Rightarrow> s) \<and>
   effective_end cfg num_frames =
     (case end_frame cfg of
        None \<Rightarrow> int num_frames
      | Some e \<Rightarrow> if e > 0 then e else int num_frames) \<and>
   (int i < effective_start cfg \<or> effective_end cfg num_frames \<le> int i \<longrightarrow>
      process_frame env (effective_start cfg) (effective_end cfg num_frames) respect i frame w
        = Inr ((frame, stack3 frame), w)) \<and>
   (process_mask env masks cfg w0 = Inr ((ms, ims), w') \<and> i < length masks \<and>
    (int i < effective_start cfg \<or> effective_end cfg (length masks) \<le> int i) \<longrightarrow>
      ms ! i = masks ! i \<and> ims ! i = stack3 (masks ! i)) \<and>
   (run_frames env start end respect 0 (take i masks) w1 = Inr (outs, wa) \<and> i < length masks \<and>
    (int i < start \<or> end \<le> int i) \<longrightarrow>
      run_frames env start end respect 0 (take (Suc i) masks) w1
        = Inr (outs @ [(masks ! i, stack3 (masks ! i))], wa))"
proof (intro conjI impI)
  show "effective_start cfg = (case start_frame cfg of None \<Rightarrow> 0 | Some s \<Rightarrow> s)"
    by (simp add: effective_start_def)
  show "effective_end cfg num_frames =
     (case end_frame cfg of
        None \<Rightarrow> int num_frames
      | Some e \<Rightarrow> if e > 0 then e else int num_frames)"
    by (auto simp: effective_end_def Let_def split: option.splits)
next
  assume "int i < effective_start cfg \<or> effective_end cfg num_frames \<le> int i"
  then show "process_frame env (effective_start cfg) (effective_end cfg num_frames) respect i frame w
        = Inr ((frame, stack3 frame), w)"
    by (rule process_frame_out_of_range)
next
  assume a: "process_mask env masks cfg w0 = Inr ((ms, ims), w') \<and> i < length masks \<and>
    (int i < effective_start cfg \<or> effective_end cfg (length masks) \<le> int i)"
  then obtain ws respect outs where
    r: "run_frames env (effective_start cfg) (effective_end cfg (length masks)) respect 0 masks ws
          = Inr (outs, w')" and
    ms: "ms = map fst outs" and ims: "ims = map snd outs"
    by (auto simp: process_mask_def Let_def split: sum.splits prod.splits if_splits)
  have l: "length outs = length masks" by (rule run_frames_length[OF r])
  have n: "outs ! i = (masks ! i, stack3 (masks ! i))"
    using run_frames_nth[OF r, of i] a by simp
  show "ms ! i = masks ! i" "ims ! i = stack3 (masks ! i)"
    using a l n by (simp_all add: ms ims)
next
  assume a: "run_frames env start end respect 0 (take i masks) w1 = Inr (outs, wa) \<and>
    i < length masks \<and> (int i < start \<or> end \<le> int i)"
  have t: "take (Suc i) masks = take i masks @ [masks ! i]"
    using a by (simp add: take_Suc_conv_app_nth)
  have li: "length (take i masks) = i" using a by simp
  show "run_frames env start end respect 0 (take (Suc i) masks) w1
        = Inr (outs @ [(masks ! i, stack3 (masks ! i))], wa)"
    unfolding t using a
    by (simp add: run_frames_append li process_frame_out_of_range)
qed

text \<open>Two frames with the range from 1 to 2: frame 0 is passed through.\<close>

theorem out_of_range_passthrough_witness:
  "int 0 < effective_start cfg_late \<and>
   process_frame env0 (effective_start cfg_late) (effective_end cfg_late 2) False 0 [[0]] world1
     = Inr (([[0]], stack3 [[0]]), world1) \<and>
   process_mask env0 [[[0]], [[1]]] cfg_late initialize
     = Inr (([[[0]], [[1]]], [[[[0, 0, 0]]], [[[1, 1, 1]]]]), world1_after) \<and>
   (0::nat) < length [[[0::real]], [[1]]] \<and>
   [[[0]], [[1]]] ! 0 = [[[0::real]], [[1]]] ! 0 \<and>
   [[[[0, 0, 0]]], [[[1, 1, 1]]]] ! 0 = stack3 ([[[0::real]], [[1]]] ! 0) \<and>
   run_frames env0 1 2 False 0 (take 0 [[[0]], [[1]]]) world1 = Inr ([], world1) \<and>
   int 0 < (1::int) \<and>
   run_frames env0 1 2 False 0 (take (Suc 0) [[[0]], [[1]]]) world1
     = Inr ([] @ [([[[0]], [[1]]] ! 0, stack3 ([[[0]], [[1]]] ! 0))], world1)"
proof -
  have h1: "int 0 < effective_start cfg_late \<or> effective_end cfg_late 2 \<le> int 0"
    by (simp add: cfg_late_range)
  have l: "(0::nat) < length [[[0::real]], [[1]]]" by simp
  have h2: "process_mask env0 [[[0]], [[1]]] cfg_late initialize
              = Inr (([[[0]], [[1]]], [[[[0, 0, 0]]], [[[1, 1, 1]]]]), world1_after) \<and>
            0 < length [[[0::real]], [[1]]] \<and>
            (int 0 < effective_start cfg_late \<or>
             effective_end cfg_late (length [[[0::real]], [[1]]]) \<le> int 0)"
    using process_mask_late by (simp add: cfg_late_range)
  have r0: "run_frames env0 1 2 False 0 (take 0 [[[0]], [[1]]]) world1 = Inr ([], world1)"
    by simp
  have h3: "run_frames env0 1 2 False 0 (take 0 [[[0]], [[1]]]) world1 = Inr ([], world1) \<and>
            0 < length [[[0::real]], [[1]]] \<and> (int 0 < 1 \<or> (2::int) \<le> int 0)"
    using r0 by simp
  note t = out_of_range_passthrough[of cfg_late 2 0 env0 False "[[0]]" world1
             "[[[0]], [[1]]]" initialize "[[[0]], [[1]]]" "[[[[0, 0, 0]]], [[[1, 1, 1]]]]"
             world1_after 1 2 world1 "[]" world1]
  note t3 = t[THEN conjunct2, THEN conjunct2]
  note a = t3[THEN conjunct1, THEN mp, OF h1]
  note b = t3[THEN conjunct2, THEN conjunct1, THEN mp, OF h2]
  note c = t3[THEN conjunct2, THEN conjunct2, THEN mp, OF h3]
  have s: "int 0 < effective_start cfg_late" "int 0 < (1::int)" by (simp_all add: cfg_late_range)
  show ?thesis
    by (intro conjI s a process_mask_late l b[THEN conjunct1] b[THEN conjunct2] r0 c)
qed

text \<open>
  The claim as stated fails for \<^verbatim>\<open>end_frame = 0\<close>: frame 0 is not before the end frame, but
  it is processed, the particle is drawn and the world changes.
\<close>

theorem end_frame_zero_counterexample:
  "end_frame cfg0 = Some 0 \<and> (0::int) \<le> int 0 \<and>
   setup_particle_system env0 1 1 cfg0 initialize = Inr world1 \<and>
   process_mask env0 [[[0]]] cfg0 initialize = Inr (([[[1]]], [[[[1, 1, 1]]]]), world1_after) \<and>
   [[[1]]] ! 0 \<noteq> [[[0::real]]] ! 0 \<and>
   particles_to_emit world1 = [0] \<and> particles_to_emit world1_after = [1] \<and>
   current_time_step world1 = 0 \<and> current_time_step world1_after = 1 / 150"
  using setup0 process_mask_cfg0
  by (simp add: cfg0_def world1_def world1_after_def world_at_def)

end
